theory Spec2Isabelle
  imports Main "HOL-Library.Word"
begin

unbundle bit_operations_syntax

section \<open>The Go library functions used by package dirs\<close>

text \<open>
  Package \<^verbatim>\<open>dirs\<close> (file \<^verbatim>\<open>dirs/dirs.go\<close>) computes path strings with
  \<^verbatim>\<open>strings\<close> and \<^verbatim>\<open>path/filepath\<close> of the Go standard library, on a Unix
  system (separator \<^verbatim>\<open>/\<close>, no volume names). A Go string is a sequence of bytes;
  it is modelled as a \<^typ>\<open>string\<close>.
\<close>

subsection \<open>Package strings\<close>

definition HasPrefix :: "string \<Rightarrow> string \<Rightarrow> bool" where
  \<comment> \<open>\<^verbatim>\<open>strings.HasPrefix(s, prefix)\<close>\<close>
  "HasPrefix s pre = (take (length pre) s = pre)"

definition HasSuffix :: "string \<Rightarrow> string \<Rightarrow> bool" where
  \<comment> \<open>\<^verbatim>\<open>strings.HasSuffix(s, suffix)\<close>\<close>
  "HasSuffix s suf = (length suf \<le> length s \<and> drop (length s - length suf) s = suf)"

fun Split :: "string \<Rightarrow> char \<Rightarrow> string list" where
  \<comment> \<open>\<^verbatim>\<open>strings.Split(s, sep)\<close> for a separator of one byte: the substrings between
      the separators, so one more element than there are separators.\<close>
  "Split [] c = [[]]"
| "Split (x # xs) c =
     (if x = c then [] # Split xs c
      else (case Split xs c of [] \<Rightarrow> [[x]] | y # ys \<Rightarrow> (x # y) # ys))"

fun strings_Join :: "string list \<Rightarrow> string \<Rightarrow> string" where
  \<comment> \<open>\<^verbatim>\<open>strings.Join(elems, sep)\<close>\<close>
  "strings_Join [] sep = []"
| "strings_Join [x] sep = x"
| "strings_Join (x # y # ys) sep = x @ sep @ strings_Join (y # ys) sep"

definition Count :: "string \<Rightarrow> char \<Rightarrow> nat" where
  \<comment> \<open>\<^verbatim>\<open>strings.Count(s, sep)\<close> for a separator of one byte\<close>
  "Count s c = length (filter (\<lambda>x. x = c) s)"

subsection \<open>Package path/filepath\<close>

definition IsAbs :: "string \<Rightarrow> bool" where
  \<comment> \<open>\<^verbatim>\<open>filepath.IsAbs\<close> on Unix: the path begins with a slash\<close>
  "IsAbs p = HasPrefix p ''/''"

text \<open>
  \<^verbatim>\<open>filepath.Clean\<close> reads the path element by element and writes the cleaned path
  into a buffer. An empty element (doubled or trailing slash) and a \<^verbatim>\<open>.\<close> element are
  skipped. A \<^verbatim>\<open>..\<close> element removes the last element written when there is one that
  is not itself \<^verbatim>\<open>..\<close> (\<^verbatim>\<open>out.w > dotdot\<close>); otherwise it is dropped in a rooted
  path and written in a relative one. Any other element is written. The buffer is kept
  here as the list of the elements written, the last one first.
\<close>

definition clean_elem :: "bool \<Rightarrow> string \<Rightarrow> string list \<Rightarrow> string list" where
  "clean_elem rooted e out =
     (if e = [] \<or> e = ''.'' then out
      else if e = ''..'' then
        (case out of
           [] \<Rightarrow> if rooted then [] else [''..'']
         | c # cs \<Rightarrow> if c \<noteq> ''..'' then cs else if rooted then out else ''..'' # out)
      else e # out)"

definition Clean :: "string \<Rightarrow> string" where
  "Clean path =
     (if path = [] then ''.''
      else
        let rooted = (hd path = CHR ''/'');
            out = fold (clean_elem rooted) (Split path CHR ''/'') [];
            body = strings_Join (rev out) ''/''
        in if rooted then ''/'' @ body
           else if out = [] then ''.''
           else body)"

definition Join :: "string list \<Rightarrow> string" where
  \<comment> \<open>\<^verbatim>\<open>filepath.Join(elem...)\<close>: leading empty elements are ignored, the rest is
      joined with slashes and cleaned; the result is empty when every element is.\<close>
  "Join elem =
     (case dropWhile (\<lambda>e. e = []) elem of
        [] \<Rightarrow> []
      | es \<Rightarrow> Clean (strings_Join es ''/''))"

text \<open>
  \<^verbatim>\<open>filepath.Rel(basepath, targpath)\<close> cleans both paths and walks them element by
  element up to the first pair of elements that differ. \<open>rel_walk\<close> is that loop on
  the parts of \<^verbatim>\<open>base\<close> and \<^verbatim>\<open>targ\<close> not yet read (\<^verbatim>\<open>base[b0:]\<close> and
  \<^verbatim>\<open>targ[t0:]\<close>); it returns them together with the element \<^verbatim>\<open>base[b0:bi]\<close> the
  loop stopped at.
\<close>

definition next_elem :: "string \<Rightarrow> string" where
  "next_elem s = takeWhile (\<lambda>c. c \<noteq> CHR ''/'') s"

function rel_walk :: "string \<Rightarrow> string \<Rightarrow> string \<times> string \<times> string" where
  "rel_walk base targ =
     (if base = [] \<or> targ = [] then (base, targ, [])
      else if next_elem targ \<noteq> next_elem base then (base, targ, next_elem base)
      else rel_walk (drop (Suc (length (next_elem base))) base)
                    (drop (Suc (length (next_elem targ))) targ))"
  by pat_completeness auto
termination
  by (relation "measure (\<lambda>(base, targ). length base)") auto

declare rel_walk.simps [simp del]

datatype rel_error = CannotMakeRelative string string

definition Rel :: "string \<Rightarrow> string \<Rightarrow> rel_error + string" where
  "Rel basepath targpath =
     (let base = Clean basepath;
          targ = Clean targpath
      in if targ = base then Inr ''.''
         else
           let base = (if base = ''.'' then [] else base);
               baseSlashed = (base \<noteq> [] \<and> hd base = CHR ''/'');
               targSlashed = (targ \<noteq> [] \<and> hd targ = CHR ''/'')
           in if baseSlashed \<noteq> targSlashed then Inl (CannotMakeRelative targpath basepath)
              else
                (case rel_walk base targ of
                   (brest, trest, belem) \<Rightarrow>
                     if belem = ''..'' then Inl (CannotMakeRelative targpath basepath)
                     else if brest \<noteq> [] then
                       Inr (''..'' @ concat (replicate (Count brest CHR ''/'') ''/..'')
                            @ (if trest \<noteq> [] then ''/'' @ trest else []))
                     else Inr trest))"

section \<open>The operating system and the release package\<close>

text \<open>
  The package reads the file system with \<^verbatim>\<open>os.Stat\<close>, \<^verbatim>\<open>os.Lstat\<close> and
  \<^verbatim>\<open>os.Readlink\<close>, and the kind of system with \<^verbatim>\<open>release.OnClassic\<close> and
  \<^verbatim>\<open>release.DistroLike\<close>. Their answers are parameters of the model, collected in
  the record \<open>env\<close>. Of the error of a file system call the code only asks whether it
  is \<^verbatim>\<open>fs.ErrNotExist\<close>; of the \<^verbatim>\<open>fs.FileInfo\<close> it only reads the mode.
\<close>

datatype os_error = ErrNotExist | ErrPermission | ErrOther string

type_synonym FileMode = "32 word"

definition ModeDir :: FileMode where "ModeDir = 0x80000000"
definition ModeSymlink :: FileMode where "ModeSymlink = 0x8000000"
definition ModeDevice :: FileMode where "ModeDevice = 0x4000000"
definition ModeNamedPipe :: FileMode where "ModeNamedPipe = 0x2000000"
definition ModeSocket :: FileMode where "ModeSocket = 0x1000000"
definition ModeCharDevice :: FileMode where "ModeCharDevice = 0x200000"
definition ModeIrregular :: FileMode where "ModeIrregular = 0x80000"

definition ModeType :: FileMode where
  "ModeType = ModeDir OR ModeSymlink OR ModeNamedPipe OR ModeSocket OR ModeDevice
              OR ModeCharDevice OR ModeIrregular"

definition Type :: "FileMode \<Rightarrow> FileMode" where
  \<comment> \<open>\<^verbatim>\<open>func (m FileMode) Type() FileMode\<close>\<close>
  "Type m = m AND ModeType"

definition IsDir :: "FileMode \<Rightarrow> bool" where
  \<comment> \<open>\<^verbatim>\<open>func (m FileMode) IsDir() bool\<close>\<close>
  "IsDir m = (m AND ModeDir \<noteq> 0)"

record env =
  OnClassic :: bool
  DistroLike :: "string list \<Rightarrow> bool"
  Stat :: "string \<Rightarrow> os_error + FileMode"
  Lstat :: "string \<Rightarrow> os_error + FileMode"
  Readlink :: "string \<Rightarrow> os_error + string"

definition ListContains :: "string list \<Rightarrow> string \<Rightarrow> bool" where
  \<comment> \<open>Modelled from the spec: \<^verbatim>\<open>strutil.ListContains\<close> is not among the sources; the
      home directory is appended "if not already present" in the list.\<close>
  "ListContains list str = (str \<in> set list)"

section \<open>Package dirs: the state\<close>

text \<open>The package-level path variables of \<^verbatim>\<open>dirs.go\<close>, and the detection error.\<close>

datatype dirs_error =
    CannotStat string os_error
  | ReadlinkFailed os_error
  | MustBeSymlink string string
  | InternalUnresolved
  | CannotResolve dirs_error

record dirs =
  GlobalRootDir :: string
  RunDir :: string
  SnapMountDir :: string
  DistroLibExecDir :: string
  hiddenSnapDataHomeGlob :: "string list"
  SnapBlobDir :: string
  SnapDataDir :: string
  snapDataHomeGlob :: "string list"
  SnapDownloadCacheDir :: string
  SnapAppArmorDir :: string
  SnapLdconfigDir :: string
  SnapSeccompBase :: string
  SnapSeccompDir :: string
  SnapMountPolicyDir :: string
  SnapCgroupPolicyDir :: string
  SnapUdevRulesDir :: string
  SnapKModModulesDir :: string
  SnapKModModprobeDir :: string
  LocaleDir :: string
  SnapdSocket :: string
  SnapSocket :: string
  SnapRunDir :: string
  SnapRunNsDir :: string
  SnapRunLockDir :: string
  SnapBootstrapRunDir :: string
  SnapVoidDir :: string
  SnapInterfacesRequestsRunDir :: string
  SnapInterfacesRequestsStateDir :: string
  SnapdMaintenanceFile :: string
  SnapdStoreSSLCertsDir :: string
  SnapSeedDir :: string
  SnapDeviceDir :: string
  SnapAssertsDBDir :: string
  SnapCookieDir :: string
  SnapTrustedAccountKey :: string
  SnapAssertsSpoolDir :: string
  SnapSeqDir :: string
  SnapStateFile :: string
  SnapStateLockFile :: string
  SnapSystemKeyFile :: string
  SnapRepairConfigFile :: string
  SnapRepairDir :: string
  SnapRepairStateFile :: string
  SnapRepairRunDir :: string
  SnapRepairAssertsDir :: string
  SnapRunRepairDir :: string
  SnapRollbackDir :: string
  SnapCacheDir :: string
  SnapNamesFile :: string
  SnapSectionsFile :: string
  SnapCommandsDB :: string
  SnapAuxStoreInfoDir :: string
  SnapIconsPoolDir :: string
  SnapIconsDir :: string
  SnapBinariesDir :: string
  SnapServicesDir :: string
  SnapRuntimeServicesDir :: string
  SnapUserServicesDir :: string
  SnapSystemdConfDir :: string
  SnapDesktopFilesDir :: string
  SnapDesktopIconsDir :: string
  SnapPolkitPolicyDir :: string
  SnapPolkitRuleDir :: string
  SnapSystemdDir :: string
  SnapSystemdRunDir :: string
  SnapDBusSessionPolicyDir :: string
  SnapDBusSystemPolicyDir :: string
  SnapDBusSessionServicesDir :: string
  SnapDBusSystemServicesDir :: string
  SnapModeenvFile :: string
  SnapBootAssetsDir :: string
  SnapFDEDir :: string
  SnapSaveDir :: string
  SnapDeviceSaveDir :: string
  SnapDataSaveDir :: string
  SnapGpioChardevDir :: string
  CloudMetaDataFile :: string
  CloudInstanceDataFile :: string
  ClassicDir :: string
  XdgRuntimeDirBase :: string
  XdgRuntimeDirGlob :: string
  CompletionHelperInCore :: string
  BashCompletionScript :: string
  LegacyCompletersDir :: string
  CompletersDir :: string
  SystemFontsDir :: string
  SystemLocalFontsDir :: string
  SystemFontconfigCacheDirs :: "string list"
  SnapshotsDir :: string
  SysfsDir :: string
  DevDir :: string
  FeaturesDir :: string
  WritableMountPath :: string
  WritableUbuntuCoreSystemDataDir :: string
  snapHomeDirs :: "string list"
  snapMountDirDetectionError :: "dirs_error option"

text \<open>
  A callback registered with \<^verbatim>\<open>AddRootDirCallback\<close> belongs to another package: it
  is given the new root, may read the variables of this package, and updates the state
  \<open>'e\<close> of its own package.
\<close>

type_synonym 'e callback = "string \<Rightarrow> dirs \<Rightarrow> 'e \<Rightarrow> 'e"

record 'e world =
  vars :: dirs
  callbacks :: "'e callback list"
  outside :: 'e

definition DefaultSnapMountDir :: string where "DefaultSnapMountDir = ''/snap''"
definition AltSnapMountDir :: string where "AltSnapMountDir = ''/var/lib/snapd/snap''"
definition DefaultDistroLibexecDir :: string where "DefaultDistroLibexecDir = ''/usr/lib/snapd''"
definition AltDistroLibexecDir :: string where "AltDistroLibexecDir = ''/usr/libexec/snapd''"
definition CoreLibExecDir :: string where "CoreLibExecDir = ''/usr/lib/snapd''"
definition CoreSnapMountDir :: string where "CoreSnapMountDir = ''/snap''"
definition UserHomeSnapDir :: string where "UserHomeSnapDir = ''snap''"
definition HiddenSnapDataHomeDir :: string where "HiddenSnapDataHomeDir = ''.snap/data''"
definition ExposedSnapHomeDir :: string where "ExposedSnapHomeDir = ''Snap''"

definition snappyDir :: string where
  "snappyDir = Join [''var'', ''lib'', ''snapd'']"

definition metaSnapPath :: string where "metaSnapPath = ''/meta/snap.yaml''"

definition specialDefaultDirDistros :: "string list" where
  "specialDefaultDirDistros = [''ubuntucoreinitramfs'']"

definition snapMountDirUnresolvedPlaceholder :: string where
  "snapMountDirUnresolvedPlaceholder = ''mount-dir-is-unset''"

text \<open>The variables as their declarations initialise them, before \<^verbatim>\<open>init\<close> runs.\<close>

definition initial_vars :: dirs where
  "initial_vars =
   \<lparr>GlobalRootDir = ''/'',
     RunDir = [],
     SnapMountDir = [],
     DistroLibExecDir = [],
     hiddenSnapDataHomeGlob = [],
     SnapBlobDir = [],
     SnapDataDir = [],
     snapDataHomeGlob = [],
     SnapDownloadCacheDir = [],
     SnapAppArmorDir = [],
     SnapLdconfigDir = [],
     SnapSeccompBase = [],
     SnapSeccompDir = [],
     SnapMountPolicyDir = [],
     SnapCgroupPolicyDir = [],
     SnapUdevRulesDir = [],
     SnapKModModulesDir = [],
     SnapKModModprobeDir = [],
     LocaleDir = [],
     SnapdSocket = [],
     SnapSocket = [],
     SnapRunDir = [],
     SnapRunNsDir = [],
     SnapRunLockDir = [],
     SnapBootstrapRunDir = [],
     SnapVoidDir = [],
     SnapInterfacesRequestsRunDir = [],
     SnapInterfacesRequestsStateDir = [],
     SnapdMaintenanceFile = [],
     SnapdStoreSSLCertsDir = [],
     SnapSeedDir = [],
     SnapDeviceDir = [],
     SnapAssertsDBDir = [],
     SnapCookieDir = [],
     SnapTrustedAccountKey = [],
     SnapAssertsSpoolDir = [],
     SnapSeqDir = [],
     SnapStateFile = [],
     SnapStateLockFile = [],
     SnapSystemKeyFile = [],
     SnapRepairConfigFile = [],
     SnapRepairDir = [],
     SnapRepairStateFile = [],
     SnapRepairRunDir = [],
     SnapRepairAssertsDir = [],
     SnapRunRepairDir = [],
     SnapRollbackDir = [],
     SnapCacheDir = [],
     SnapNamesFile = [],
     SnapSectionsFile = [],
     SnapCommandsDB = [],
     SnapAuxStoreInfoDir = [],
     SnapIconsPoolDir = [],
     SnapIconsDir = [],
     SnapBinariesDir = [],
     SnapServicesDir = [],
     SnapRuntimeServicesDir = [],
     SnapUserServicesDir = [],
     SnapSystemdConfDir = [],
     SnapDesktopFilesDir = [],
     SnapDesktopIconsDir = [],
     SnapPolkitPolicyDir = [],
     SnapPolkitRuleDir = [],
     SnapSystemdDir = [],
     SnapSystemdRunDir = [],
     SnapDBusSessionPolicyDir = [],
     SnapDBusSystemPolicyDir = [],
     SnapDBusSessionServicesDir = [],
     SnapDBusSystemServicesDir = [],
     SnapModeenvFile = [],
     SnapBootAssetsDir = [],
     SnapFDEDir = [],
     SnapSaveDir = [],
     SnapDeviceSaveDir = [],
     SnapDataSaveDir = [],
     SnapGpioChardevDir = [],
     CloudMetaDataFile = [],
     CloudInstanceDataFile = [],
     ClassicDir = [],
     XdgRuntimeDirBase = [],
     XdgRuntimeDirGlob = [],
     CompletionHelperInCore = [],
     BashCompletionScript = [],
     LegacyCompletersDir = [],
     CompletersDir = [],
     SystemFontsDir = [],
     SystemLocalFontsDir = [],
     SystemFontconfigCacheDirs = [],
     SnapshotsDir = [],
     SysfsDir = [],
     DevDir = [],
     FeaturesDir = [],
     WritableMountPath = [],
     WritableUbuntuCoreSystemDataDir = [],
     snapHomeDirs = [],
     snapMountDirDetectionError = None\<rparr>"

definition initial_world :: "'e \<Rightarrow> 'e world" where
  "initial_world e = \<lparr>vars = initial_vars, callbacks = [], outside = e\<rparr>"

record SnapDirOptions =
  HiddenSnapDataDir :: bool
  MigratedToExposedHome :: bool

section \<open>Package dirs: the functions\<close>

definition SnapHomeDirs :: "dirs \<Rightarrow> string list" where
  "SnapHomeDirs s =
     (let dirs = snapHomeDirs s
      in if length dirs = 0 then [Join [GlobalRootDir s, ''/home'']] else dirs)"

text \<open>The body of the loop of \<^verbatim>\<open>SetSnapHomeDirs\<close>, at index \<open>i\<close>.\<close>

definition homedir_step :: "nat \<Rightarrow> dirs \<Rightarrow> dirs" where
  "homedir_step i s =
     (let s = s\<lparr>snapHomeDirs := (snapHomeDirs s)[i := Clean (snapHomeDirs s ! i)]\<rparr>;
          globalRootDir = GlobalRootDir s;
          globalRootDir = (if globalRootDir \<noteq> ''/'' \<and> \<not> HasSuffix globalRootDir ''/''
                           then globalRootDir @ ''/'' else globalRootDir);
          s = (if \<not> HasPrefix (snapHomeDirs s ! i) globalRootDir
               then s\<lparr>snapHomeDirs := (snapHomeDirs s)[i := Join [GlobalRootDir s, snapHomeDirs s ! i]]\<rparr>
               else s);
          s = s\<lparr>snapDataHomeGlob :=
                  snapDataHomeGlob s @ [Join [snapHomeDirs s ! i, ''*'', UserHomeSnapDir]]\<rparr>;
          s = s\<lparr>hiddenSnapDataHomeGlob :=
                  hiddenSnapDataHomeGlob s @ [Join [snapHomeDirs s ! i, ''*'', HiddenSnapDataHomeDir]]\<rparr>
      in s)"

definition SetSnapHomeDirs :: "string \<Rightarrow> dirs \<Rightarrow> string list \<times> dirs" where
  "SetSnapHomeDirs homedirs s =
     (let s = s\<lparr>snapHomeDirs := []\<rparr>;
          s = s\<lparr>snapDataHomeGlob := []\<rparr>;
          s = s\<lparr>hiddenSnapDataHomeGlob := []\<rparr>;
          s = (if homedirs \<noteq> [] then
                 (let s = s\<lparr>snapHomeDirs := Split homedirs CHR '',''\<rparr>
                  in fold homedir_step [0..<length (snapHomeDirs s)] s)
               else s);
          hasHome = ListContains (snapHomeDirs s) (Join [GlobalRootDir s, ''/home'']);
          s = (if \<not> hasHome then
                 (let s = s\<lparr>snapHomeDirs := snapHomeDirs s @ [Join [GlobalRootDir s, ''/home'']]\<rparr>;
                      s = s\<lparr>snapDataHomeGlob := snapDataHomeGlob s
                              @ [Join [GlobalRootDir s, ''/home'', ''*'', UserHomeSnapDir]]\<rparr>;
                      s = s\<lparr>hiddenSnapDataHomeGlob := hiddenSnapDataHomeGlob s
                              @ [Join [GlobalRootDir s, ''/home'', ''*'', HiddenSnapDataHomeDir]]\<rparr>
                  in s)
               else s)
      in (snapHomeDirs s, s))"

datatype panic =
    PathNotAbsolute string
  | PathNotRelated string
  | RelFailed rel_error

definition StripRootDir :: "dirs \<Rightarrow> string \<Rightarrow> panic + string" where
  "StripRootDir s dir =
     (if \<not> IsAbs dir then Inl (PathNotAbsolute dir)
      else if \<not> HasPrefix dir (GlobalRootDir s) then Inl (PathNotRelated dir)
      else (case Rel (GlobalRootDir s) dir of
              Inl err \<Rightarrow> Inl (RelFailed err)
            | Inr result \<Rightarrow> Inr (''/'' @ result)))"

definition DataHomeGlobs :: "SnapDirOptions option \<Rightarrow> dirs \<Rightarrow> string list" where
  "DataHomeGlobs opts s =
     (case opts of
        Some opt \<Rightarrow> if HiddenSnapDataDir opt then hiddenSnapDataHomeGlob s else snapDataHomeGlob s
      | None \<Rightarrow> snapDataHomeGlob s)"

definition isInsideBaseSnap :: "env \<Rightarrow> bool \<times> os_error option" where
  "isInsideBaseSnap env =
     (case Stat env metaSnapPath of
        Inl err \<Rightarrow> if err = ErrNotExist then (False, None) else (False, Some err)
      | Inr fi \<Rightarrow> (True, None))"

definition SnapdStateDir :: "string \<Rightarrow> string" where
  "SnapdStateDir rootdir = Join [rootdir, snappyDir]"

definition SnapBlobDirUnder :: "string \<Rightarrow> string" where
  "SnapBlobDirUnder rootdir = Join [rootdir, snappyDir, ''snaps'']"

definition SnapSeedDirUnder :: "string \<Rightarrow> string" where
  "SnapSeedDirUnder rootdir = Join [rootdir, snappyDir, ''seed'']"

definition SnapStateFileUnder :: "string \<Rightarrow> string" where
  "SnapStateFileUnder rootdir = Join [rootdir, snappyDir, ''state.json'']"

definition SnapStateLockFileUnder :: "string \<Rightarrow> string" where
  "SnapStateLockFileUnder rootdir = Join [rootdir, snappyDir, ''state.lock'']"

definition SnapModeenvFileUnder :: "string \<Rightarrow> string" where
  "SnapModeenvFileUnder rootdir = Join [rootdir, snappyDir, ''modeenv'']"

definition FeaturesDirUnder :: "string \<Rightarrow> string" where
  "FeaturesDirUnder rootdir = Join [rootdir, snappyDir, ''features'']"

definition SnapSystemParamsUnder :: "string \<Rightarrow> string" where
  "SnapSystemParamsUnder rootdir = Join [rootdir, snappyDir, ''system-params'']"

definition SnapSystemdConfDirUnder :: "string \<Rightarrow> string" where
  "SnapSystemdConfDirUnder rootdir = Join [rootdir, ''/etc/systemd/system.conf.d'']"

definition SnapServicesDirUnder :: "string \<Rightarrow> string" where
  "SnapServicesDirUnder rootdir = Join [rootdir, ''/etc/systemd/system'']"

definition SnapRuntimeServicesDirUnder :: "string \<Rightarrow> string" where
  "SnapRuntimeServicesDirUnder rootdir = Join [rootdir, ''/run/systemd/system'']"

definition SnapSystemdDirUnder :: "string \<Rightarrow> string" where
  "SnapSystemdDirUnder rootdir = Join [rootdir, ''/etc/systemd'']"

definition SnapBootAssetsDirUnder :: "string \<Rightarrow> string" where
  "SnapBootAssetsDirUnder rootdir = Join [rootdir, snappyDir, ''boot-assets'']"

definition SnapDeviceDirUnder :: "string \<Rightarrow> string" where
  "SnapDeviceDirUnder rootdir = Join [rootdir, snappyDir, ''device'']"

definition SnapFDEDirUnder :: "string \<Rightarrow> string" where
  "SnapFDEDirUnder rootdir = Join [SnapDeviceDirUnder rootdir, ''fde'']"

definition SnapSaveDirUnder :: "string \<Rightarrow> string" where
  "SnapSaveDirUnder rootdir = Join [rootdir, snappyDir, ''save'']"

definition SnapRepairConfigFileUnder :: "string \<Rightarrow> string" where
  "SnapRepairConfigFileUnder rootdir = Join [rootdir, snappyDir, ''repair.json'']"

definition SnapKernelDriversTreesDirUnder :: "string \<Rightarrow> string" where
  "SnapKernelDriversTreesDirUnder rootdir = Join [rootdir, snappyDir, ''kernel'']"


definition AddRootDirCallback :: "'e callback \<Rightarrow> 'e world \<Rightarrow> 'e world" where
  "AddRootDirCallback c w = w\<lparr>callbacks := callbacks w @ [c]\<rparr>"

definition SnapMountDirDetectionOutcome :: "dirs \<Rightarrow> dirs_error option" where
  "SnapMountDirDetectionOutcome s = snapMountDirDetectionError s"

definition snapMountDirProbe :: "env \<Rightarrow> string \<Rightarrow> dirs_error + string" where
  "snapMountDirProbe env rootdir =
     (let defaultDir = Join [rootdir, DefaultSnapMountDir];
          altDir = Join [rootdir, AltSnapMountDir]
      in if DistroLike env specialDefaultDirDistros then Inr defaultDir
         else
           (case Lstat env defaultDir of
              Inl err \<Rightarrow>
                if err = ErrNotExist then Inr altDir
                else Inl (CannotStat defaultDir err)
            | Inr mode \<Rightarrow>
                if Type mode AND ModeSymlink \<noteq> 0 then
                  (case Readlink env defaultDir of
                     Inl err \<Rightarrow> Inl (ReadlinkFailed err)
                   | Inr p \<Rightarrow>
                       if p \<noteq> AltSnapMountDir \<and> p \<noteq> drop 1 AltSnapMountDir \<and> p \<noteq> altDir
                       then Inl (MustBeSymlink defaultDir AltSnapMountDir)
                       else Inr altDir)
                else if IsDir (Type mode) then Inr defaultDir
                else Inl InternalUnresolved))"

definition SetRootDir :: "env \<Rightarrow> string \<Rightarrow> 'e world \<Rightarrow> 'e world" where
  "SetRootDir env rootdir0 w =
     (let rootdir = (if rootdir0 = [] then ''/'' else rootdir0);
          s = vars w;
          s = s\<lparr>GlobalRootDir := rootdir\<rparr>;
          isInsideBase = fst (isInsideBaseSnap env);
          s = (if isInsideBase then s\<lparr>SnapMountDir := Join [rootdir, DefaultSnapMountDir]\<rparr>
               else
                 (case snapMountDirProbe env rootdir of
                    Inr dir \<Rightarrow> s\<lparr>SnapMountDir := dir, snapMountDirDetectionError := None\<rparr>
                  | Inl err \<Rightarrow>
                      s\<lparr>SnapMountDir := snapMountDirUnresolvedPlaceholder,
                        snapMountDirDetectionError := Some (CannotResolve err)\<rparr>));
          s = s\<lparr>SnapDataDir := Join [rootdir, ''/var/snap'']\<rparr>;
          s = s\<lparr>SnapAppArmorDir := Join [rootdir, snappyDir, ''apparmor'', ''profiles'']\<rparr>;
          s = s\<lparr>SnapLdconfigDir := Join [rootdir, ''/etc/ld.so.conf.d'']\<rparr>;
          s = s\<lparr>SnapDownloadCacheDir := Join [rootdir, snappyDir, ''cache'']\<rparr>;
          s = s\<lparr>SnapSeccompBase := Join [rootdir, snappyDir, ''seccomp'']\<rparr>;
          s = s\<lparr>SnapSeccompDir := Join [SnapSeccompBase s, ''bpf'']\<rparr>;
          s = s\<lparr>SnapMountPolicyDir := Join [rootdir, snappyDir, ''mount'']\<rparr>;
          s = s\<lparr>SnapCgroupPolicyDir := Join [rootdir, snappyDir, ''cgroup'']\<rparr>;
          s = s\<lparr>SnapdMaintenanceFile := Join [rootdir, snappyDir, ''maintenance.json'']\<rparr>;
          s = s\<lparr>SnapBlobDir := SnapBlobDirUnder rootdir\<rparr>;
          s = s\<lparr>SnapVoidDir := Join [rootdir, snappyDir, ''void'']\<rparr>;
          s = s\<lparr>SnapDesktopFilesDir := Join [rootdir, snappyDir, ''desktop'', ''applications'']\<rparr>;
          s = s\<lparr>SnapDesktopIconsDir := Join [rootdir, snappyDir, ''desktop'', ''icons'']\<rparr>;
          s = s\<lparr>RunDir := Join [rootdir, ''/run'']\<rparr>;
          s = s\<lparr>SnapRunDir := Join [rootdir, ''/run/snapd'']\<rparr>;
          s = s\<lparr>SnapRunNsDir := Join [SnapRunDir s, ''/ns'']\<rparr>;
          s = s\<lparr>SnapRunLockDir := Join [SnapRunDir s, ''/lock'']\<rparr>;
          s = s\<lparr>SnapBootstrapRunDir := Join [SnapRunDir s, ''snap-bootstrap'']\<rparr>;
          s = s\<lparr>SnapInterfacesRequestsRunDir := Join [SnapRunDir s, ''interfaces-requests'']\<rparr>;
          s = s\<lparr>SnapInterfacesRequestsStateDir := Join [rootdir, snappyDir, ''interfaces-requests'']\<rparr>;
          s = s\<lparr>SnapdStoreSSLCertsDir := Join [rootdir, snappyDir, ''ssl/store-certs'']\<rparr>;
          s = s\<lparr>SnapdSocket := Join [rootdir, ''/run/snapd.socket'']\<rparr>;
          s = s\<lparr>SnapSocket := Join [rootdir, ''/run/snapd-snap.socket'']\<rparr>;
          s = s\<lparr>SnapAssertsDBDir := Join [rootdir, snappyDir, ''assertions'']\<rparr>;
          s = s\<lparr>SnapCookieDir := Join [rootdir, snappyDir, ''cookie'']\<rparr>;
          s = s\<lparr>SnapAssertsSpoolDir := Join [rootdir, ''run/snapd/auto-import'']\<rparr>;
          s = s\<lparr>SnapSeqDir := Join [rootdir, snappyDir, ''sequence'']\<rparr>;
          s = s\<lparr>SnapStateFile := SnapStateFileUnder rootdir\<rparr>;
          s = s\<lparr>SnapStateLockFile := SnapStateLockFileUnder rootdir\<rparr>;
          s = s\<lparr>SnapSystemKeyFile := Join [rootdir, snappyDir, ''system-key'']\<rparr>;
          s = s\<lparr>SnapCacheDir := Join [rootdir, ''/var/cache/snapd'']\<rparr>;
          s = s\<lparr>SnapNamesFile := Join [SnapCacheDir s, ''names'']\<rparr>;
          s = s\<lparr>SnapSectionsFile := Join [SnapCacheDir s, ''sections'']\<rparr>;
          s = s\<lparr>SnapCommandsDB := Join [SnapCacheDir s, ''commands.db'']\<rparr>;
          s = s\<lparr>SnapAuxStoreInfoDir := Join [SnapCacheDir s, ''aux'']\<rparr>;
          s = s\<lparr>SnapIconsPoolDir := Join [SnapCacheDir s, ''icons-pool'']\<rparr>;
          s = s\<lparr>SnapIconsDir := Join [SnapCacheDir s, ''icons'']\<rparr>;
          s = s\<lparr>SnapSeedDir := SnapSeedDirUnder rootdir\<rparr>;
          s = s\<lparr>SnapDeviceDir := SnapDeviceDirUnder rootdir\<rparr>;
          s = s\<lparr>SnapModeenvFile := SnapModeenvFileUnder rootdir\<rparr>;
          s = s\<lparr>SnapBootAssetsDir := SnapBootAssetsDirUnder rootdir\<rparr>;
          s = s\<lparr>SnapFDEDir := SnapFDEDirUnder rootdir\<rparr>;
          s = s\<lparr>SnapSaveDir := SnapSaveDirUnder rootdir\<rparr>;
          s = s\<lparr>SnapDeviceSaveDir := Join [SnapSaveDir s, ''device'']\<rparr>;
          s = s\<lparr>SnapDataSaveDir := Join [SnapSaveDir s, ''snap'']\<rparr>;
          s = s\<lparr>SnapRepairConfigFile := SnapRepairConfigFileUnder rootdir\<rparr>;
          s = s\<lparr>SnapRepairDir := Join [rootdir, snappyDir, ''repair'']\<rparr>;
          s = s\<lparr>SnapRepairStateFile := Join [SnapRepairDir s, ''repair.json'']\<rparr>;
          s = s\<lparr>SnapRepairRunDir := Join [SnapRepairDir s, ''run'']\<rparr>;
          s = s\<lparr>SnapRepairAssertsDir := Join [SnapRepairDir s, ''assertions'']\<rparr>;
          s = s\<lparr>SnapRunRepairDir := Join [SnapRunDir s, ''repair'']\<rparr>;
          s = s\<lparr>SnapRollbackDir := Join [rootdir, snappyDir, ''rollback'']\<rparr>;
          s = s\<lparr>SnapBinariesDir := Join [SnapMountDir s, ''bin'']\<rparr>;
          s = s\<lparr>SnapServicesDir := SnapServicesDirUnder rootdir\<rparr>;
          s = s\<lparr>SnapRuntimeServicesDir := SnapRuntimeServicesDirUnder rootdir\<rparr>;
          s = s\<lparr>SnapUserServicesDir := Join [rootdir, ''/etc/systemd/user'']\<rparr>;
          s = s\<lparr>SnapSystemdConfDir := SnapSystemdConfDirUnder rootdir\<rparr>;
          s = s\<lparr>SnapSystemdDir := Join [rootdir, ''/etc/systemd'']\<rparr>;
          s = s\<lparr>SnapSystemdRunDir := Join [rootdir, ''/run/systemd'']\<rparr>;
          s = s\<lparr>SnapDBusSystemPolicyDir := Join [rootdir, ''/etc/dbus-1/system.d'']\<rparr>;
          s = s\<lparr>SnapDBusSessionPolicyDir := Join [rootdir, ''/etc/dbus-1/session.d'']\<rparr>;
          s = s\<lparr>SnapDBusSessionServicesDir := Join [rootdir, snappyDir, ''dbus-1'', ''services'']\<rparr>;
          s = s\<lparr>SnapDBusSystemServicesDir := Join [rootdir, snappyDir, ''dbus-1'', ''system-services'']\<rparr>;
          s = s\<lparr>SnapPolkitPolicyDir := Join [rootdir, ''/usr/share/polkit-1/actions'']\<rparr>;
          s = s\<lparr>SnapPolkitRuleDir := Join [rootdir, ''/etc/polkit-1/rules.d'']\<rparr>;
          s = s\<lparr>CloudInstanceDataFile := Join [rootdir, ''/run/cloud-init/instance-data.json'']\<rparr>;
          s = s\<lparr>SnapUdevRulesDir := Join [rootdir, ''/etc/udev/rules.d'']\<rparr>;
          s = s\<lparr>SnapKModModulesDir := Join [rootdir, ''/etc/modules-load.d/'']\<rparr>;
          s = s\<lparr>SnapKModModprobeDir := Join [rootdir, ''/etc/modprobe.d/'']\<rparr>;
          s = s\<lparr>DevDir := Join [rootdir, ''/dev'']\<rparr>;
          s = s\<lparr>SnapGpioChardevDir := Join [DevDir s, ''/snap/gpio-chardev'']\<rparr>;
          s = s\<lparr>LocaleDir := Join [rootdir, ''/usr/share/locale'']\<rparr>;
          s = s\<lparr>ClassicDir := Join [rootdir, ''/writable/classic'']\<rparr>;
          s = s\<lparr>DistroLibExecDir := Join [rootdir, DefaultDistroLibexecDir]\<rparr>;
          s = (case Stat env (DistroLibExecDir s) of
                 Inl err \<Rightarrow>
                   if err = ErrNotExist then
                     (let alt = Join [rootdir, AltDistroLibexecDir]
                      in case Stat env alt of
                           Inr fi \<Rightarrow> s\<lparr>DistroLibExecDir := alt\<rparr>
                         | Inl err \<Rightarrow> s)
                   else s
               | Inr fi \<Rightarrow> s);
          s = s\<lparr>XdgRuntimeDirBase := Join [rootdir, ''/run/user'']\<rparr>;
          s = s\<lparr>XdgRuntimeDirGlob := Join [XdgRuntimeDirBase s, ''*/'']\<rparr>;
          s = s\<lparr>CompletionHelperInCore := Join [CoreLibExecDir, ''etelpmoc.sh'']\<rparr>;
          s = s\<lparr>BashCompletionScript := Join [rootdir, ''/usr/share/bash-completion/bash_completion'']\<rparr>;
          s = s\<lparr>LegacyCompletersDir := Join [rootdir, ''/usr/share/bash-completion/completions/'']\<rparr>;
          s = s\<lparr>CompletersDir := Join [rootdir, snappyDir, ''desktop/bash-completion/completions/'']\<rparr>;
          s = s\<lparr>SystemFontsDir := Join [rootdir, ''/usr/share/fonts'']\<rparr>;
          s = s\<lparr>SystemLocalFontsDir := Join [rootdir, ''/usr/local/share/fonts'']\<rparr>;
          s = s\<lparr>SystemFontconfigCacheDirs := [Join [rootdir, ''/var/cache/fontconfig'']]\<rparr>;
          s = (if DistroLike env [''fedora''] \<and> \<not> DistroLike env [''amzn'']
               then s\<lparr>SystemFontconfigCacheDirs :=
                       SystemFontconfigCacheDirs s @ [Join [rootdir, ''/usr/lib/fontconfig/cache'']]\<rparr>
               else s);
          s = s\<lparr>SnapshotsDir := Join [rootdir, snappyDir, ''snapshots'']\<rparr>;
          s = s\<lparr>SysfsDir := Join [rootdir, ''/sys'']\<rparr>;
          s = s\<lparr>FeaturesDir := FeaturesDirUnder rootdir\<rparr>;
          s = snd (SetSnapHomeDirs ''/home'' s);
          e = fold (\<lambda>c e. c rootdir s e) (callbacks w) (outside w);
          s = (if OnClassic env then s\<lparr>WritableMountPath := rootdir\<rparr>
               else s\<lparr>WritableMountPath := Join [rootdir, ''writable'']\<rparr>);
          s = s\<lparr>WritableUbuntuCoreSystemDataDir := Join [WritableMountPath s, ''system-data'']\<rparr>
      in w\<lparr>vars := s, outside := e\<rparr>)"

definition init :: "env \<Rightarrow> string \<Rightarrow> 'e \<Rightarrow> 'e world" where
  \<comment> \<open>\<^verbatim>\<open>func init()\<close>, with the value of \<^verbatim>\<open>SNAPPY_GLOBAL_ROOT\<close>\<close>
  "init env root e = SetRootDir env root (initial_world e)"

definition libExecOutside :: "env \<Rightarrow> dirs \<Rightarrow> string \<Rightarrow> string" where
  "libExecOutside env s base =
     (if base = [] then Join [SnapMountDir s, ''core/current/usr/lib/snapd'']
      else
        (let p = Join [SnapMountDir s, ''snapd/current/usr/lib/snapd'']
         in case Stat env p of
              Inr st \<Rightarrow> if IsDir st then p else DistroLibExecDir s
            | Inl err \<Rightarrow> DistroLibExecDir s))"

definition CompleteShPath :: "env \<Rightarrow> dirs \<Rightarrow> string \<Rightarrow> string" where
  "CompleteShPath env s base = Join [libExecOutside env s base, ''complete.sh'']"


section \<open>Example systems\<close>

text \<open>
  Concrete systems for the examples below: a classic system of no special distribution,
  with \<open>st\<close> as the answers of \<^verbatim>\<open>os.Stat\<close>, where \<^verbatim>\<open>os.Lstat\<close> answers \<open>lst\<close> and
  \<^verbatim>\<open>os.Readlink\<close> answers \<open>rl\<close> for every path.
\<close>

definition example_env ::
  "(string \<Rightarrow> os_error + FileMode) \<Rightarrow> (os_error + FileMode) \<Rightarrow> (os_error + string) \<Rightarrow> env" where
  "example_env st lst rl =
     \<lparr>OnClassic = True, DistroLike = (\<lambda>ids. False), Stat = st,
      Lstat = (\<lambda>p. lst), Readlink = (\<lambda>p. rl)\<rparr>"

text \<open>
  A callback that appends to the state of its package what it is given and what it reads:
  the root it receives, \<^verbatim>\<open>dirs.GlobalRootDir\<close> and \<^verbatim>\<open>dirs.WritableMountPath\<close>.
\<close>

definition record_writable :: "(string \<times> string \<times> string) list callback" where
  "record_writable root d seen = seen @ [(root, GlobalRootDir d, WritableMountPath d)]"

definition no_files :: "string \<Rightarrow> os_error + FileMode" where
  "no_files p = Inl ErrNotExist"

definition only_dir :: "string \<Rightarrow> string \<Rightarrow> os_error + FileMode" where
  "only_dir d p = (if p = d then Inr (ModeDir OR 0x1ED) else Inl ErrNotExist)"

section \<open>Auxiliary notions\<close>

text \<open>
  The buffer of \<open>Clean\<close> always holds a cleaned path: elements that are neither
  empty nor \<^verbatim>\<open>.\<close>, without a slash, with \<^verbatim>\<open>..\<close> only at the start of a
  relative path. \<open>render\<close> is the string \<open>Clean\<close> returns for a buffer.
\<close>

fun valid_out :: "bool \<Rightarrow> string list \<Rightarrow> bool" where
  "valid_out rooted [] = True"
| "valid_out rooted (e # out) =
     (e \<noteq> [] \<and> e \<noteq> ''.'' \<and> CHR ''/'' \<notin> set e
      \<and> (e = ''..'' \<longrightarrow> \<not> rooted \<and> (\<forall>x\<in>set out. x = ''..''))
      \<and> valid_out rooted out)"

definition render :: "bool \<Rightarrow> string list \<Rightarrow> string" where
  "render rooted out =
     (if rooted then ''/'' @ strings_Join (rev out) ''/''
      else if out = [] then ''.''
      else strings_Join (rev out) ''/'')"

section \<open>Properties of the library functions\<close>

subsection \<open>Split and Join of package strings\<close>

lemma Split_nonempty [simp]: "Split s c \<noteq> []"
  by (induction s) (auto split: list.splits)

lemma Split_no_sep: "e \<in> set (Split s c) \<Longrightarrow> c \<notin> set e"
  by (induction s arbitrary: e) (auto split: if_splits list.splits)

lemma Split_append_sep: "Split (a @ c # b) c = Split a c @ Split b c"
  by (induction a) (auto split: list.splits)

lemma Split_nosep: "c \<notin> set s \<Longrightarrow> Split s c = [s]"
  by (induction s) auto

lemma strings_Join_Cons:
  "strings_Join (x # xs) sep = x @ (if xs = [] then [] else sep @ strings_Join xs sep)"
  by (cases xs) auto

lemma Split_strings_Join:
  "xs \<noteq> [] \<Longrightarrow> \<forall>e\<in>set xs. c \<notin> set e \<Longrightarrow> Split (strings_Join xs [c]) c = xs"
proof (induction xs)
  case Nil
  then show ?case by simp
next
  case (Cons x xs)
  show ?case
  proof (cases "xs = []")
    case True
    with Cons.prems show ?thesis by (simp add: Split_nosep)
  next
    case False
    with Cons show ?thesis
      by (simp add: strings_Join_Cons Split_append_sep Split_nosep)
  qed
qed

lemma strings_Join_Split: "strings_Join (Split s c) [c] = s"
proof (induction s)
  case Nil
  show ?case by simp
next
  case (Cons x xs)
  obtain y ys where sp: "Split xs c = y # ys"
    by (cases "Split xs c") auto
  with Cons show ?case
    by (cases ys) (auto simp: strings_Join_Cons)
qed

lemma strings_Join_append:
  "xs \<noteq> [] \<Longrightarrow> ys \<noteq> [] \<Longrightarrow>
   strings_Join (xs @ ys) sep = strings_Join xs sep @ sep @ strings_Join ys sep"
  by (induction xs) (auto simp: strings_Join_Cons)

subsection \<open>Clean\<close>

lemma clean_elem_skip: "e = [] \<or> e = ''.'' \<Longrightarrow> clean_elem rooted e out = out"
  by (simp add: clean_elem_def)

lemma clean_elem_push:
  "e \<noteq> [] \<Longrightarrow> e \<noteq> ''.'' \<Longrightarrow> e \<noteq> ''..'' \<Longrightarrow> clean_elem rooted e out = e # out"
  by (simp add: clean_elem_def)

lemma clean_elem_dotdot:
  "clean_elem rooted ''..'' out =
     (case out of
        [] \<Rightarrow> if rooted then [] else [''..'']
      | c # cs \<Rightarrow> if c \<noteq> ''..'' then cs else if rooted then out else ''..'' # out)"
  by (simp add: clean_elem_def)

lemma valid_out_clean_elem:
  assumes "valid_out rooted out" and "CHR ''/'' \<notin> set e"
  shows "valid_out rooted (clean_elem rooted e out)"
proof -
  consider "e = [] \<or> e = ''.''" | "e = ''..''" | "e \<noteq> [] \<and> e \<noteq> ''.'' \<and> e \<noteq> ''..''"
    by blast
  then show ?thesis
  proof cases
    case 1
    then show ?thesis using assms by (simp only: clean_elem_skip)
  next
    case 2
    show ?thesis
    proof (cases out)
      case Nil
      then show ?thesis unfolding 2 clean_elem_dotdot by simp
    next
      case (Cons c cs)
      with assms(1) have "valid_out rooted cs" and "c = ''..'' \<longrightarrow> \<not> rooted \<and> (\<forall>x\<in>set cs. x = ''..'')"
        by simp_all
      with assms(1) Cons show ?thesis unfolding 2 clean_elem_dotdot
        by (cases "c = ''..''") simp_all
    qed
  next
    case 3
    then have "clean_elem rooted e out = e # out" by (simp add: clean_elem_push)
    with 3 assms show ?thesis by simp
  qed
qed

lemma valid_out_fold:
  "valid_out rooted out \<Longrightarrow> \<forall>e\<in>set es. CHR ''/'' \<notin> set e \<Longrightarrow>
   valid_out rooted (fold (clean_elem rooted) es out)"
  by (induction es arbitrary: out) (simp_all add: valid_out_clean_elem)

lemma valid_out_Split:
  "valid_out rooted out \<Longrightarrow> valid_out rooted (fold (clean_elem rooted) (Split p CHR ''/'') out)"
  by (rule valid_out_fold) (auto dest: Split_no_sep)

lemma replay_rev: "valid_out rooted out \<Longrightarrow> fold (clean_elem rooted) (rev out) [] = out"
proof (induction out)
  case Nil
  show ?case by simp
next
  case (Cons e out)
  then have ih: "fold (clean_elem rooted) (rev out) [] = out" by simp
  have "clean_elem rooted e out = e # out"
  proof (cases "e = ''..''")
    case False
    with Cons.prems show ?thesis by (simp add: clean_elem_push)
  next
    case True
    with Cons.prems have nr: "\<not> rooted" and all: "\<forall>x\<in>set out. x = ''..''" by simp_all
    show ?thesis unfolding True clean_elem_dotdot using nr all
      by (cases out) simp_all
  qed
  with ih show ?case by simp
qed

lemma valid_out_no_sep: "valid_out rooted out \<Longrightarrow> \<forall>e\<in>set (rev out). CHR ''/'' \<notin> set e"
  by (induction out) auto

lemma replay_render:
  assumes "valid_out rooted out"
  shows "fold (clean_elem rooted) (Split (render rooted out) CHR ''/'') [] = out"
proof (cases "out = []")
  case True
  then show ?thesis by (simp add: render_def clean_elem_def)
next
  case False
  then have sp: "Split (strings_Join (rev out) ''/'') CHR ''/'' = rev out"
    using Split_strings_Join [of "rev out" "CHR ''/''"] valid_out_no_sep [OF assms] by simp
  have sp': "Split (''/'' @ strings_Join (rev out) ''/'') CHR ''/'' = [] # rev out"
    using Split_append_sep [of "[]" "CHR ''/''" "strings_Join (rev out) ''/''"] sp by simp
  have "fold (clean_elem rooted) (Split (render rooted out) CHR ''/'') []
        = fold (clean_elem rooted) (rev out) []"
    using False by (simp add: render_def sp sp' clean_elem_def)
  then show ?thesis
    by (simp only: replay_rev [OF assms])
qed

lemma strings_Join_hd:
  "xs \<noteq> [] \<Longrightarrow> hd xs \<noteq> [] \<Longrightarrow> strings_Join xs sep \<noteq> [] \<and> hd (strings_Join xs sep) = hd (hd xs)"
  by (cases xs) (auto simp: strings_Join_Cons)

lemma valid_out_last:
  "valid_out rooted out \<Longrightarrow> out \<noteq> [] \<Longrightarrow> last out \<noteq> [] \<and> hd (last out) \<noteq> CHR ''/''"
  by (induction out) (auto simp: neq_Nil_conv)

lemma render_nonempty [simp]: "valid_out rooted out \<Longrightarrow> render rooted out \<noteq> []"
  using strings_Join_hd [of "rev out" "''/''"] valid_out_last [of rooted out]
  by (auto simp: render_def hd_rev)

lemma render_hd: "valid_out rooted out \<Longrightarrow> (hd (render rooted out) = CHR ''/'') = rooted"
  using strings_Join_hd [of "rev out" "''/''"] valid_out_last [of rooted out]
  by (auto simp: render_def hd_rev)

lemma Clean_render:
  "p \<noteq> [] \<Longrightarrow>
   Clean p = render (hd p = CHR ''/'') (fold (clean_elem (hd p = CHR ''/'')) (Split p CHR ''/'') [])"
  by (simp add: Clean_def render_def Let_def)

lemma Clean_nonempty [simp]: "Clean p \<noteq> []"
  by (cases "p = []") (simp_all add: Clean_render valid_out_Split, simp add: Clean_def)

lemma Clean_hd: "p \<noteq> [] \<Longrightarrow> (hd (Clean p) = CHR ''/'') = (hd p = CHR ''/'')"
  by (simp add: Clean_render render_hd valid_out_Split)

lemma Clean_idem: "Clean (Clean p) = Clean p"
proof (cases "p = []")
  case True
  then show ?thesis by (simp add: Clean_def clean_elem_def)
next
  case False
  let ?r = "hd p = CHR ''/''"
  let ?out = "fold (clean_elem ?r) (Split p CHR ''/'') []"
  have v: "valid_out ?r ?out" by (simp add: valid_out_Split)
  have c: "Clean p = render ?r ?out" using False by (rule Clean_render)
  have "Clean (render ?r ?out) = render ?r ?out"
    using v by (simp add: Clean_render render_hd replay_render)
  with c show ?thesis by simp
qed

lemma Clean_append:
  assumes "x \<noteq> []"
  shows "Clean (Clean x @ ''/'' @ y) = Clean (x @ ''/'' @ y)"
proof -
  let ?r = "hd x = CHR ''/''"
  let ?out = "fold (clean_elem ?r) (Split x CHR ''/'') []"
  have v: "valid_out ?r ?out" by (simp add: valid_out_Split)
  have c: "Clean x = render ?r ?out" using assms by (rule Clean_render)
  have h: "(hd (Clean x @ ''/'' @ y) = CHR ''/'') = ?r"
    using Clean_hd [OF assms] by simp
  have "Clean (Clean x @ ''/'' @ y)
        = render ?r (fold (clean_elem ?r) (Split (Clean x @ ''/'' @ y) CHR ''/'') [])"
    using h by (simp add: Clean_render)
  also have "Split (Clean x @ ''/'' @ y) CHR ''/'' = Split (Clean x) CHR ''/'' @ Split y CHR ''/''"
    using Split_append_sep [of "Clean x" "CHR ''/''" y] by simp
  also have "fold (clean_elem ?r) (Split (Clean x) CHR ''/'' @ Split y CHR ''/'') []
        = fold (clean_elem ?r) (Split y CHR ''/'') ?out"
    using v by (simp add: c replay_render)
  also have "\<dots> = fold (clean_elem ?r) (Split (x @ ''/'' @ y) CHR ''/'') []"
    using Split_append_sep [of x "CHR ''/''" y] by simp
  also have "render ?r \<dots> = Clean (x @ ''/'' @ y)"
    using assms by (simp add: Clean_render)
  finally show ?thesis .
qed

subsection \<open>Join of package filepath\<close>

lemma Join_Cons_nonempty: "e \<noteq> [] \<Longrightarrow> Join (e # es) = Clean (strings_Join (e # es) ''/'')"
  by (simp add: Join_def)

lemma Join_Cons_empty: "Join ([] # es) = Join es"
  by (simp add: Join_def)

lemma Join_nonempty: "e \<noteq> [] \<Longrightarrow> Join (e # es) \<noteq> []"
  by (simp add: Join_Cons_nonempty)

lemma Join_Join:
  assumes "b \<noteq> []"
  shows "Join (Join [a, b] # c # cs) = Join (a # b # c # cs)"
proof -
  let ?rest = "strings_Join (c # cs) ''/''"
  show ?thesis
  proof (cases "a = []")
    case True
    have "Join (Clean b # c # cs) = Clean (Clean b @ ''/'' @ ?rest)"
      by (simp add: Join_Cons_nonempty)
    also have "\<dots> = Clean (b @ ''/'' @ ?rest)"
      using assms by (rule Clean_append)
    finally show ?thesis
      using True assms by (simp add: Join_Cons_empty Join_Cons_nonempty)
  next
    case False
    have "Join (Clean (a @ ''/'' @ b) # c # cs) = Clean (Clean (a @ ''/'' @ b) @ ''/'' @ ?rest)"
      by (simp add: Join_Cons_nonempty)
    also have "\<dots> = Clean ((a @ ''/'' @ b) @ ''/'' @ ?rest)"
      using False by (intro Clean_append) simp
    finally show ?thesis
      using False by (simp add: Join_Cons_nonempty)
  qed
qed

subsection \<open>The home directories\<close>

lemma homedir_step_shape:
  assumes "i < length (snapHomeDirs s)"
  shows "\<exists>d. homedir_step i s =
           s\<lparr>snapHomeDirs := (snapHomeDirs s)[i := d],
             snapDataHomeGlob := snapDataHomeGlob s @ [Join [d, ''*'', UserHomeSnapDir]],
             hiddenSnapDataHomeGlob :=
               hiddenSnapDataHomeGlob s @ [Join [d, ''*'', HiddenSnapDataHomeDir]]\<rparr>"
proof -
  let ?c = "Clean (snapHomeDirs s ! i)"
  let ?g = "if GlobalRootDir s \<noteq> ''/'' \<and> \<not> HasSuffix (GlobalRootDir s) ''/''
            then GlobalRootDir s @ ''/'' else GlobalRootDir s"
  show ?thesis
  proof (cases "HasPrefix ?c ?g")
    case True
    then have "homedir_step i s =
           s\<lparr>snapHomeDirs := (snapHomeDirs s)[i := ?c],
             snapDataHomeGlob := snapDataHomeGlob s @ [Join [?c, ''*'', UserHomeSnapDir]],
             hiddenSnapDataHomeGlob :=
               hiddenSnapDataHomeGlob s @ [Join [?c, ''*'', HiddenSnapDataHomeDir]]\<rparr>"
      using assms by (simp add: homedir_step_def Let_def split del: if_split cong del: if_weak_cong)
    then show ?thesis by blast
  next
    case False
    then have "homedir_step i s =
           s\<lparr>snapHomeDirs := (snapHomeDirs s)[i := Join [GlobalRootDir s, ?c]],
             snapDataHomeGlob := snapDataHomeGlob s
               @ [Join [Join [GlobalRootDir s, ?c], ''*'', UserHomeSnapDir]],
             hiddenSnapDataHomeGlob := hiddenSnapDataHomeGlob s
               @ [Join [Join [GlobalRootDir s, ?c], ''*'', HiddenSnapDataHomeDir]]\<rparr>"
      using assms by (simp add: homedir_step_def Let_def split del: if_split cong del: if_weak_cong)
    then show ?thesis by blast
  qed
qed

lemma fold_homedir_step:
  "n \<le> length (snapHomeDirs s) \<Longrightarrow>
   \<exists>ds. length ds = n \<and>
     fold homedir_step [0..<n] s =
       s\<lparr>snapHomeDirs := ds @ drop n (snapHomeDirs s),
         snapDataHomeGlob := snapDataHomeGlob s @ map (\<lambda>d. Join [d, ''*'', UserHomeSnapDir]) ds,
         hiddenSnapDataHomeGlob :=
           hiddenSnapDataHomeGlob s @ map (\<lambda>d. Join [d, ''*'', HiddenSnapDataHomeDir]) ds\<rparr>"
proof (induction n)
  case 0
  show ?case by simp
next
  case (Suc n)
  then obtain ds where len: "length ds = n"
    and eq: "fold homedir_step [0..<n] s =
       s\<lparr>snapHomeDirs := ds @ drop n (snapHomeDirs s),
         snapDataHomeGlob := snapDataHomeGlob s @ map (\<lambda>d. Join [d, ''*'', UserHomeSnapDir]) ds,
         hiddenSnapDataHomeGlob :=
           hiddenSnapDataHomeGlob s @ map (\<lambda>d. Join [d, ''*'', HiddenSnapDataHomeDir]) ds\<rparr>"
    by auto
  let ?t = "fold homedir_step [0..<n] s"
  have lt: "n < length (snapHomeDirs ?t)"
    using Suc.prems len by (simp add: eq)
  from homedir_step_shape [OF lt] obtain d where
    st: "homedir_step n ?t =
           ?t\<lparr>snapHomeDirs := (snapHomeDirs ?t)[n := d],
             snapDataHomeGlob := snapDataHomeGlob ?t @ [Join [d, ''*'', UserHomeSnapDir]],
             hiddenSnapDataHomeGlob :=
               hiddenSnapDataHomeGlob ?t @ [Join [d, ''*'', HiddenSnapDataHomeDir]]\<rparr>"
    by blast
  have upd: "(ds @ drop n (snapHomeDirs s))[n := d] = (ds @ [d]) @ drop (Suc n) (snapHomeDirs s)"
    using len Suc.prems
    by (simp add: list_update_append Cons_nth_drop_Suc [symmetric])
  have "fold homedir_step [0..<Suc n] s = homedir_step n ?t" by simp
  also have "\<dots> =
       s\<lparr>snapHomeDirs := (ds @ [d]) @ drop (Suc n) (snapHomeDirs s),
         snapDataHomeGlob :=
           snapDataHomeGlob s @ map (\<lambda>d. Join [d, ''*'', UserHomeSnapDir]) (ds @ [d]),
         hiddenSnapDataHomeGlob :=
           hiddenSnapDataHomeGlob s @ map (\<lambda>d. Join [d, ''*'', HiddenSnapDataHomeDir]) (ds @ [d])\<rparr>"
    unfolding st unfolding eq using upd by simp
  finally show ?case using len
    by (intro exI [of _ "ds @ [d]"]) simp
qed

lemma SetSnapHomeDirs_shape:
  "\<exists>ds. ds \<noteq> [] \<and> Join [GlobalRootDir s, ''/home''] \<in> set ds \<and>
     SetSnapHomeDirs homedirs s =
       (ds, s\<lparr>snapHomeDirs := ds,
              snapDataHomeGlob := map (\<lambda>d. Join [d, ''*'', UserHomeSnapDir]) ds,
              hiddenSnapDataHomeGlob := map (\<lambda>d. Join [d, ''*'', HiddenSnapDataHomeDir]) ds\<rparr>)"
proof -
  let ?home = "Join [GlobalRootDir s, ''/home'']"
  let ?mk = "\<lambda>ds. s\<lparr>snapHomeDirs := ds,
              snapDataHomeGlob := map (\<lambda>d. Join [d, ''*'', UserHomeSnapDir]) ds,
              hiddenSnapDataHomeGlob := map (\<lambda>d. Join [d, ''*'', HiddenSnapDataHomeDir]) ds\<rparr>"
  let ?s0 = "s\<lparr>snapHomeDirs := [], snapDataHomeGlob := [], hiddenSnapDataHomeGlob := []\<rparr>"
  let ?s1 = "if homedirs \<noteq> [] then
                 fold homedir_step [0..<length (Split homedirs CHR '','')]
                   (?s0\<lparr>snapHomeDirs := Split homedirs CHR '',''\<rparr>)
             else ?s0"
  have "\<exists>us. ?s1 = ?mk us"
  proof (cases "homedirs = []")
    case True
    then have "?s1 = ?mk []" by simp
    then show ?thesis by blast
  next
    case False
    let ?t = "?s0\<lparr>snapHomeDirs := Split homedirs CHR '',''\<rparr>"
    have "length (Split homedirs CHR '','') \<le> length (snapHomeDirs ?t)" by simp
    from fold_homedir_step [OF this] obtain us where
      "fold homedir_step [0..<length (Split homedirs CHR '','')] ?t = ?mk us"
      by auto
    with False show ?thesis by auto
  qed
  then obtain us where s1: "?s1 = ?mk us" by blast
  have g1: "Join [GlobalRootDir s, ''/home'', ''*'', UserHomeSnapDir] = Join [?home, ''*'', UserHomeSnapDir]"
    by (rule Join_Join [symmetric]) simp
  have g2: "Join [GlobalRootDir s, ''/home'', ''*'', HiddenSnapDataHomeDir] = Join [?home, ''*'', HiddenSnapDataHomeDir]"
    by (rule Join_Join [symmetric]) simp
  have unf: "SetSnapHomeDirs homedirs s =
     (let s = ?s1;
          hasHome = ListContains (snapHomeDirs s) (Join [GlobalRootDir s, ''/home'']);
          s = (if \<not> hasHome then
                 s\<lparr>snapHomeDirs := snapHomeDirs s @ [Join [GlobalRootDir s, ''/home'']],
                   snapDataHomeGlob := snapDataHomeGlob s
                              @ [Join [GlobalRootDir s, ''/home'', ''*'', UserHomeSnapDir]],
                   hiddenSnapDataHomeGlob := hiddenSnapDataHomeGlob s
                              @ [Join [GlobalRootDir s, ''/home'', ''*'', HiddenSnapDataHomeDir]]\<rparr>
               else s)
      in (snapHomeDirs s, s))"
    by (simp add: SetSnapHomeDirs_def Let_def)
  show ?thesis
  proof (cases "?home \<in> set us")
    case True
    then have "SetSnapHomeDirs homedirs s = (us, ?mk us)"
      unfolding unf s1 by (simp add: Let_def ListContains_def)
    with True show ?thesis by (intro exI [of _ us]) auto
  next
    case False
    then have "SetSnapHomeDirs homedirs s = (us @ [?home], ?mk (us @ [?home]))"
      unfolding unf s1 by (simp add: Let_def ListContains_def g1 g2)
    then show ?thesis by (intro exI [of _ "us @ [?home]"]) auto
  qed
qed

subsection \<open>Rel of package filepath\<close>

lemma next_elem_append: "CHR ''/'' \<notin> set e \<Longrightarrow> next_elem (e @ CHR ''/'' # t) = e"
  by (induction e) (auto simp: next_elem_def)

lemma next_elem_all: "CHR ''/'' \<notin> set e \<Longrightarrow> next_elem e = e"
  by (induction e) (auto simp: next_elem_def)

lemma rel_walk_Nil: "rel_walk [] t = ([], t, [])"
  by (simp add: rel_walk.simps)

lemma rel_walk_step:
  assumes "CHR ''/'' \<notin> set e"
  shows "rel_walk (e @ CHR ''/'' # b) (e @ CHR ''/'' # t) = rel_walk b t"
proof -
  have "rel_walk (e @ CHR ''/'' # b) (e @ CHR ''/'' # t)
        = rel_walk (drop (Suc (length e)) (e @ CHR ''/'' # b)) (drop (Suc (length e)) (e @ CHR ''/'' # t))"
    by (subst rel_walk.simps) (simp add: next_elem_append [OF assms])
  then show ?thesis by simp
qed

lemma rel_walk_last:
  assumes "CHR ''/'' \<notin> set e" and "e \<noteq> []"
  shows "rel_walk e (e @ CHR ''/'' # t) = ([], t, [])"
proof -
  have "rel_walk e (e @ CHR ''/'' # t)
        = rel_walk (drop (Suc (length e)) e) (drop (Suc (length e)) (e @ CHR ''/'' # t))"
    using assms(2)
    by (subst rel_walk.simps) (simp add: next_elem_append [OF assms(1)] next_elem_all [OF assms(1)])
  then show ?thesis by (simp add: rel_walk_Nil)
qed

lemma rel_walk_strings_Join:
  "xs \<noteq> [] \<Longrightarrow> ys \<noteq> [] \<Longrightarrow> \<forall>e\<in>set xs. e \<noteq> [] \<and> CHR ''/'' \<notin> set e \<Longrightarrow>
   rel_walk (strings_Join xs ''/'') (strings_Join (xs @ ys) ''/'') = ([], strings_Join ys ''/'', [])"
proof (induction xs)
  case Nil
  then show ?case by simp
next
  case (Cons x xs)
  show ?case
  proof (cases "xs = []")
    case True
    with Cons.prems show ?thesis
      using rel_walk_last [of x "strings_Join ys ''/''"]
      by (simp add: strings_Join_Cons)
  next
    case False
    with Cons show ?thesis
      using rel_walk_step [of x "strings_Join xs ''/''" "strings_Join (xs @ ys) ''/''"]
      by (simp add: strings_Join_Cons)
  qed
qed

lemma rel_walk_render:
  assumes v: "valid_out True out" and ne: "ys \<noteq> []"
  shows "rel_walk (render True out) (render True (rev ys @ out)) = ([], strings_Join ys ''/'', [])"
proof -
  have first: "\<And>b t. rel_walk (CHR ''/'' # b) (CHR ''/'' # t) = rel_walk b t"
    using rel_walk_step [of "[]"] by simp
  show ?thesis
  proof (cases "out = []")
    case True
    then show ?thesis by (simp add: render_def first rel_walk_Nil)
  next
    case False
    have "\<forall>e\<in>set (rev out). e \<noteq> [] \<and> CHR ''/'' \<notin> set e"
      using v by (induction out) auto
    with False ne show ?thesis
      using rel_walk_strings_Join [of "rev out" ys]
      by (simp add: render_def first)
  qed
qed

lemma Rel_walked:
  assumes "Clean b \<noteq> []" "hd (Clean b) = CHR ''/''" "hd (Clean t) = CHR ''/''"
    and "Clean t \<noteq> Clean b"
    and "rel_walk (Clean b) (Clean t) = ([], x, [])"
  shows "Rel b t = Inr x"
proof -
  have "Clean b \<noteq> ''.''" using assms(2) by auto
  with assms show ?thesis
    by (simp add: Rel_def Let_def)
qed

subsection \<open>Cleaned relative paths\<close>

lemma fold_clean_elem_no_dotdot:
  "''..'' \<notin> set es \<Longrightarrow>
   fold (clean_elem rooted) es out = rev (filter (\<lambda>e. e \<noteq> [] \<and> e \<noteq> ''.'') es) @ out"
proof (induction es arbitrary: out)
  case Nil
  show ?case by simp
next
  case (Cons e es)
  then have "e \<noteq> ''..''" and "''..'' \<notin> set es" by auto
  then show ?case
    using Cons.IH [of "clean_elem rooted e out"]
    by (cases "e = [] \<or> e = ''.''") (auto simp: clean_elem_skip clean_elem_push)
qed

lemma IsAbs_iff: "IsAbs p = (p \<noteq> [] \<and> hd p = CHR ''/'')"
  by (cases p) (simp_all add: IsAbs_def HasPrefix_def)

lemma render_inject:
  assumes "valid_out rooted a" "valid_out rooted b" "render rooted a = render rooted b"
  shows "a = b"
proof -
  have "a = fold (clean_elem rooted) (Split (render rooted a) CHR ''/'') []"
    using replay_render [OF assms(1)] by (rule sym)
  also have "\<dots> = fold (clean_elem rooted) (Split (render rooted b) CHR ''/'') []"
    by (simp only: assms(3))
  also have "\<dots> = b"
    using assms(2) by (rule replay_render)
  finally show ?thesis .
qed

subsection \<open>The home directories after a change of the root\<close>

lemma HasSuffix_slash: "HasSuffix g ''/'' \<Longrightarrow> g \<noteq> [] \<and> last g = CHR ''/''"
  by (cases g rule: rev_cases) (auto simp: HasSuffix_def)

lemma HasPrefix_home_slash:
  assumes "HasPrefix ''/home'' g" and "g \<noteq> []" and "last g = CHR ''/''"
  shows "g = ''/''"
proof (cases g)
  case Nil
  with assms(2) show ?thesis by simp
next
  case (Cons c g1)
  with assms(1) have c: "c = CHR ''/''" and g1: "take (length g1) ''home'' = g1"
    by (simp_all add: HasPrefix_def)
  have "g1 = []"
  proof (rule ccontr)
    assume ne: "g1 \<noteq> []"
    then have "last g1 = CHR ''/''" using assms(3) Cons by simp
    then have "CHR ''/'' \<in> set g1" using ne last_in_set by metis
    then have "CHR ''/'' \<in> set (take (length g1) ''home'')" by (simp only: g1)
    then have "CHR ''/'' \<in> set ''home''" by (rule in_set_takeD)
    then show False by simp
  qed
  with c Cons show ?thesis by simp
qed

lemma home_under_root:
  "(if \<not> HasPrefix ''/home''
          (if root \<noteq> ''/'' \<and> \<not> HasSuffix root ''/'' then root @ ''/'' else root)
    then Join [root, ''/home''] else ''/home'') = Join [root, ''/home'']"
proof (cases "HasPrefix ''/home'' (if root \<noteq> ''/'' \<and> \<not> HasSuffix root ''/'' then root @ ''/'' else root)")
  case False
  then show ?thesis by (simp split del: if_split)
next
  case True
  have eval: "Join [[], ''/home''] = ''/home''" "Join [''/'', ''/home''] = ''/home''"
    by code_simp+
  have "root = [] \<or> root = ''/''"
  proof (cases "root \<noteq> ''/'' \<and> \<not> HasSuffix root ''/''")
    case True
    with \<open>HasPrefix ''/home'' _\<close> have "HasPrefix ''/home'' (root @ ''/'')" by simp
    then have "root @ ''/'' = ''/''" by (rule HasPrefix_home_slash) simp_all
    then show ?thesis by simp
  next
    case False
    then have alt: "root = ''/'' \<or> HasSuffix root ''/''" by blast
    from False \<open>HasPrefix ''/home'' _\<close> have hp: "HasPrefix ''/home'' root" by auto
    show ?thesis
    proof (cases "root = ''/''")
      case True
      then show ?thesis by simp
    next
      case False
      with alt have "HasSuffix root ''/''" by simp
      then have "root \<noteq> []" "last root = CHR ''/''" using HasSuffix_slash by auto
      with hp have "root = ''/''" by (rule HasPrefix_home_slash)
      then show ?thesis by simp
    qed
  qed
  with True eval show ?thesis by (auto split del: if_split)
qed

lemma SetSnapHomeDirs_home:
  "snd (SetSnapHomeDirs ''/home'' s) =
     s\<lparr>snapHomeDirs := [Join [GlobalRootDir s, ''/home'']],
       snapDataHomeGlob := [Join [Join [GlobalRootDir s, ''/home''], ''*'', UserHomeSnapDir]],
       hiddenSnapDataHomeGlob := [Join [Join [GlobalRootDir s, ''/home''], ''*'', HiddenSnapDataHomeDir]]\<rparr>"
proof -
  let ?t = "s\<lparr>snapDataHomeGlob := [], hiddenSnapDataHomeGlob := [],
              snapHomeDirs := [''/home'']\<rparr>"
  let ?H = "Join [GlobalRootDir s, ''/home'']"
  let ?u = "s\<lparr>snapHomeDirs := [?H],
       snapDataHomeGlob := [Join [?H, ''*'', UserHomeSnapDir]],
       hiddenSnapDataHomeGlob := [Join [?H, ''*'', HiddenSnapDataHomeDir]]\<rparr>"
  have c: "Clean ''/home'' = ''/home''" by code_simp
  let ?hp = "HasPrefix ''/home''
          (if GlobalRootDir s \<noteq> ''/'' \<and> \<not> HasSuffix (GlobalRootDir s) ''/''
           then GlobalRootDir s @ ''/'' else GlobalRootDir s)"
  have step: "homedir_step 0 ?t = ?u"
  proof (cases ?hp)
    case True
    then have "''/home'' = ?H"
      using home_under_root [of "GlobalRootDir s"] by (simp split del: if_split)
    then have u: "?u = s\<lparr>snapHomeDirs := [''/home''],
       snapDataHomeGlob := [Join [''/home'', ''*'', UserHomeSnapDir]],
       hiddenSnapDataHomeGlob := [Join [''/home'', ''*'', HiddenSnapDataHomeDir]]\<rparr>"
      by simp
    show ?thesis
      unfolding u using True
      by (simp add: homedir_step_def Let_def c split del: if_split cong del: if_weak_cong)
  next
    case False
    then show ?thesis
      by (simp add: homedir_step_def Let_def c split del: if_split cong del: if_weak_cong)
  qed
  have "SetSnapHomeDirs ''/home'' s =
     (let s = homedir_step 0 ?t;
          hasHome = ListContains (snapHomeDirs s) (Join [GlobalRootDir s, ''/home'']);
          s = (if \<not> hasHome then
                 s\<lparr>snapHomeDirs := snapHomeDirs s @ [Join [GlobalRootDir s, ''/home'']],
                   snapDataHomeGlob := snapDataHomeGlob s
                              @ [Join [GlobalRootDir s, ''/home'', ''*'', UserHomeSnapDir]],
                   hiddenSnapDataHomeGlob := hiddenSnapDataHomeGlob s
                              @ [Join [GlobalRootDir s, ''/home'', ''*'', HiddenSnapDataHomeDir]]\<rparr>
               else s)
      in (snapHomeDirs s, s))"
    by (simp add: SetSnapHomeDirs_def Let_def)
  then show ?thesis
    by (simp add: step ListContains_def Let_def)
qed

section \<open>The home directories\<close>

lemmas path_eval = Clean_def Join_def clean_elem_def HasPrefix_def HasSuffix_def Let_def

lemma SetSnapHomeDirs_a_b:
  assumes root: "GlobalRootDir s = ''/x''"
  shows "SetSnapHomeDirs ''/a,/b'' s =
     ([''/x/a'', ''/x/b'', ''/x/home''],
      s\<lparr>snapHomeDirs := [''/x/a'', ''/x/b'', ''/x/home''],
        snapDataHomeGlob := [''/x/a/*/snap'', ''/x/b/*/snap'', ''/x/home/*/snap''],
        hiddenSnapDataHomeGlob :=
          [''/x/a/*/.snap/data'', ''/x/b/*/.snap/data'', ''/x/home/*/.snap/data'']\<rparr>)"
proof -
  let ?t = "s\<lparr>snapHomeDirs := [], snapDataHomeGlob := [], hiddenSnapDataHomeGlob := [],
              snapHomeDirs := Split ''/a,/b'' CHR '',''\<rparr>"
  let ?t1 = "s\<lparr>snapHomeDirs := [''/x/a'', ''/b''],
              snapDataHomeGlob := [''/x/a/*/snap''],
              hiddenSnapDataHomeGlob := [''/x/a/*/.snap/data'']\<rparr>"
  let ?t2 = "s\<lparr>snapHomeDirs := [''/x/a'', ''/x/b''],
              snapDataHomeGlob := [''/x/a/*/snap'', ''/x/b/*/snap''],
              hiddenSnapDataHomeGlob := [''/x/a/*/.snap/data'', ''/x/b/*/.snap/data'']\<rparr>"
  have a: "homedir_step 0 ?t = ?t1"
    using root
    by (simp add: homedir_step_def path_eval UserHomeSnapDir_def HiddenSnapDataHomeDir_def)
  have b: "homedir_step (Suc 0) ?t1 = ?t2"
    using root
    by (simp add: homedir_step_def path_eval UserHomeSnapDir_def HiddenSnapDataHomeDir_def)
  have "fold homedir_step [0..<length (snapHomeDirs ?t)] ?t = homedir_step (Suc 0) (homedir_step 0 ?t)"
    by (simp add: upt_conv_Cons)
  then have f: "fold homedir_step [0..<length (snapHomeDirs ?t)] ?t = ?t2"
    by (simp only: a b)
  have unf: "SetSnapHomeDirs ''/a,/b'' s =
     (let s = fold homedir_step [0..<length (snapHomeDirs ?t)] ?t;
          hasHome = ListContains (snapHomeDirs s) (Join [GlobalRootDir s, ''/home'']);
          s = (if \<not> hasHome then
                 s\<lparr>snapHomeDirs := snapHomeDirs s @ [Join [GlobalRootDir s, ''/home'']],
                   snapDataHomeGlob := snapDataHomeGlob s
                              @ [Join [GlobalRootDir s, ''/home'', ''*'', UserHomeSnapDir]],
                   hiddenSnapDataHomeGlob := hiddenSnapDataHomeGlob s
                              @ [Join [GlobalRootDir s, ''/home'', ''*'', HiddenSnapDataHomeDir]]\<rparr>
               else s)
      in (snapHomeDirs s, s))"
    by (simp add: SetSnapHomeDirs_def Let_def del: Split.simps)
  show ?thesis
    unfolding unf f using root
    by (simp add: path_eval ListContains_def UserHomeSnapDir_def HiddenSnapDataHomeDir_def)
qed

text \<open>
  Claim C5. When the current root is \<^verbatim>\<open>/x\<close>, \<^verbatim>\<open>SetSnapHomeDirs("/a,/b")\<close> returns
  exactly \<^verbatim>\<open>["/x/a", "/x/b", "/x/home"]\<close>, the entries of the input in their order and
  the default \<^verbatim>\<open>/x/home\<close> appended last, and the globs of the standard variant are
  exactly \<^verbatim>\<open>["/x/a/*/snap", "/x/b/*/snap", "/x/home/*/snap"]\<close>, in the same order.
\<close>

theorem SetSnapHomeDirs_example:
  "GlobalRootDir s = ''/x'' \<Longrightarrow>
   fst (SetSnapHomeDirs ''/a,/b'' s) = [''/x/a'', ''/x/b'', ''/x/home'']
   \<and> SnapHomeDirs (snd (SetSnapHomeDirs ''/a,/b'' s)) = [''/x/a'', ''/x/b'', ''/x/home'']
   \<and> DataHomeGlobs None (snd (SetSnapHomeDirs ''/a,/b'' s))
       = [''/x/a/*/snap'', ''/x/b/*/snap'', ''/x/home/*/snap'']"
  by (simp add: SetSnapHomeDirs_a_b SnapHomeDirs_def DataHomeGlobs_def)

theorem SetSnapHomeDirs_example_witness:
  "GlobalRootDir (initial_vars\<lparr>GlobalRootDir := ''/x''\<rparr>) = ''/x''
   \<and> fst (SetSnapHomeDirs ''/a,/b'' (initial_vars\<lparr>GlobalRootDir := ''/x''\<rparr>))
       = [''/x/a'', ''/x/b'', ''/x/home'']
   \<and> DataHomeGlobs None (snd (SetSnapHomeDirs ''/a,/b'' (initial_vars\<lparr>GlobalRootDir := ''/x''\<rparr>)))
       = [''/x/a/*/snap'', ''/x/b/*/snap'', ''/x/home/*/snap'']"
  using SetSnapHomeDirs_example [of "initial_vars\<lparr>GlobalRootDir := ''/x''\<rparr>"] by simp

text \<open>
  Claim C7. After every \<^verbatim>\<open>SetSnapHomeDirs(csv)\<close>, for every input string, the list of
  home directories is not empty and contains the \<^verbatim>\<open>/home\<close> entry under the root; the
  globs of the standard and of the hidden variant each have exactly one element per home
  directory, made from that directory, in the order of the home directories; and
  \<^verbatim>\<open>SnapHomeDirs\<close> reports the one-element list of the root's \<^verbatim>\<open>/home\<close> in the place of
  an empty list.
\<close>

theorem SetSnapHomeDirs_invariants:
  "fst (SetSnapHomeDirs csv s) \<noteq> []
   \<and> Join [GlobalRootDir s, ''/home''] \<in> set (fst (SetSnapHomeDirs csv s))
   \<and> GlobalRootDir (snd (SetSnapHomeDirs csv s)) = GlobalRootDir s
   \<and> snapHomeDirs (snd (SetSnapHomeDirs csv s)) = fst (SetSnapHomeDirs csv s)
   \<and> SnapHomeDirs (snd (SetSnapHomeDirs csv s)) = fst (SetSnapHomeDirs csv s)
   \<and> DataHomeGlobs None (snd (SetSnapHomeDirs csv s))
       = map (\<lambda>d. Join [d, ''*'', ''snap'']) (fst (SetSnapHomeDirs csv s))
   \<and> DataHomeGlobs (Some \<lparr>HiddenSnapDataDir = True, MigratedToExposedHome = m\<rparr>)
         (snd (SetSnapHomeDirs csv s))
       = map (\<lambda>d. Join [d, ''*'', ''.snap/data'']) (fst (SetSnapHomeDirs csv s))
   \<and> SnapHomeDirs (s\<lparr>snapHomeDirs := []\<rparr>) = [Join [GlobalRootDir s, ''/home'']]"
proof -
  obtain ds where ne: "ds \<noteq> []" and home: "Join [GlobalRootDir s, ''/home''] \<in> set ds"
    and eq: "SetSnapHomeDirs csv s =
       (ds, s\<lparr>snapHomeDirs := ds,
              snapDataHomeGlob := map (\<lambda>d. Join [d, ''*'', UserHomeSnapDir]) ds,
              hiddenSnapDataHomeGlob := map (\<lambda>d. Join [d, ''*'', HiddenSnapDataHomeDir]) ds\<rparr>)"
    using SetSnapHomeDirs_shape [of s csv] by blast
  show ?thesis
    unfolding eq using ne home
    by (simp add: SnapHomeDirs_def DataHomeGlobs_def UserHomeSnapDir_def
          HiddenSnapDataHomeDir_def)
qed

section \<open>The mount directory probe\<close>

lemma Type_symlink: "Type m AND ModeSymlink = m AND ModeSymlink"
proof -
  have "ModeType AND ModeSymlink = ModeSymlink"
    by (simp add: ModeType_def ModeDir_def ModeSymlink_def ModeDevice_def ModeNamedPipe_def
          ModeSocket_def ModeCharDevice_def ModeIrregular_def)
  then show ?thesis
    by (simp add: Type_def and.assoc)
qed

lemma Type_IsDir: "IsDir (Type m) = IsDir m"
proof -
  have "ModeType AND ModeDir = ModeDir"
    by (simp add: ModeType_def ModeDir_def ModeSymlink_def ModeDevice_def ModeNamedPipe_def
          ModeSocket_def ModeCharDevice_def ModeIrregular_def)
  then show ?thesis
    by (simp add: Type_def IsDir_def and.assoc)
qed

text \<open>
  Claim C3. For every root \<open>r\<close>, on a distribution that is not in the special list, the
  probe of the default candidate \<^verbatim>\<open>join(r, "/snap")\<close> returns the default candidate when
  it exists and is a plain directory; the alternate candidate
  \<^verbatim>\<open>join(r, "/var/lib/snapd/snap")\<close> when the default does not exist; the alternate
  candidate when the default is a symbolic link whose target, as read, is one of
  \<^verbatim>\<open>/var/lib/snapd/snap\<close>, \<^verbatim>\<open>var/lib/snapd/snap\<close> or the alternate candidate itself; an
  error when it is a symbolic link to any other target, and an error when the stat fails
  with an error other than not-exist.
\<close>

theorem snapMountDirProbe_outcomes:
  assumes "\<not> DistroLike env specialDefaultDirDistros"
  shows
   "(\<forall>m. Lstat env (Join [r, ''/snap'']) = Inr m \<and> IsDir m \<and> m AND ModeSymlink = 0
          \<longrightarrow> snapMountDirProbe env r = Inr (Join [r, ''/snap'']))
    \<and> (Lstat env (Join [r, ''/snap'']) = Inl ErrNotExist
          \<longrightarrow> snapMountDirProbe env r = Inr (Join [r, ''/var/lib/snapd/snap'']))
    \<and> (\<forall>m p. Lstat env (Join [r, ''/snap'']) = Inr m \<and> m AND ModeSymlink \<noteq> 0
            \<and> Readlink env (Join [r, ''/snap'']) = Inr p
            \<and> (p = ''/var/lib/snapd/snap'' \<or> p = ''var/lib/snapd/snap''
                 \<or> p = Join [r, ''/var/lib/snapd/snap''])
          \<longrightarrow> snapMountDirProbe env r = Inr (Join [r, ''/var/lib/snapd/snap'']))
    \<and> (\<forall>m p. Lstat env (Join [r, ''/snap'']) = Inr m \<and> m AND ModeSymlink \<noteq> 0
            \<and> Readlink env (Join [r, ''/snap'']) = Inr p
            \<and> p \<noteq> ''/var/lib/snapd/snap'' \<and> p \<noteq> ''var/lib/snapd/snap''
            \<and> p \<noteq> Join [r, ''/var/lib/snapd/snap'']
          \<longrightarrow> snapMountDirProbe env r
              = Inl (MustBeSymlink (Join [r, ''/snap'']) ''/var/lib/snapd/snap''))
    \<and> (\<forall>e. Lstat env (Join [r, ''/snap'']) = Inl e \<and> e \<noteq> ErrNotExist
          \<longrightarrow> snapMountDirProbe env r = Inl (CannotStat (Join [r, ''/snap'']) e))"
  using assms
  by (simp add: snapMountDirProbe_def Let_def DefaultSnapMountDir_def AltSnapMountDir_def
        Type_symlink Type_IsDir)

theorem snapMountDirProbe_outcomes_witness:
  "\<not> DistroLike (example_env no_files (Inr (ModeDir OR 0x1ED)) (Inl ErrNotExist)) specialDefaultDirDistros
   \<and> IsDir (ModeDir OR 0x1ED) \<and> (ModeDir OR 0x1ED) AND ModeSymlink = 0
   \<and> (ModeSymlink OR 0x1FF) AND ModeSymlink \<noteq> 0
   \<and> snapMountDirProbe (example_env no_files (Inr (ModeDir OR 0x1ED)) (Inl ErrNotExist)) ''/''
       = Inr (Join [''/'', ''/snap''])
   \<and> snapMountDirProbe (example_env no_files (Inl ErrNotExist) (Inl ErrNotExist)) ''/''
       = Inr (Join [''/'', ''/var/lib/snapd/snap''])
   \<and> snapMountDirProbe (example_env no_files (Inr (ModeSymlink OR 0x1FF)) (Inr ''/var/lib/snapd/snap'')) ''/''
       = Inr (Join [''/'', ''/var/lib/snapd/snap''])
   \<and> snapMountDirProbe (example_env no_files (Inr (ModeSymlink OR 0x1FF)) (Inr ''var/lib/snapd/snap'')) ''/x''
       = Inr (Join [''/x'', ''/var/lib/snapd/snap''])
   \<and> snapMountDirProbe (example_env no_files (Inr (ModeSymlink OR 0x1FF)) (Inr ''/x/var/lib/snapd/snap'')) ''/x''
       = Inr (Join [''/x'', ''/var/lib/snapd/snap''])
   \<and> snapMountDirProbe (example_env no_files (Inr (ModeSymlink OR 0x1FF)) (Inr ''/elsewhere'')) ''/''
       = Inl (MustBeSymlink (Join [''/'', ''/snap'']) ''/var/lib/snapd/snap'')
   \<and> snapMountDirProbe (example_env no_files (Inl ErrPermission) (Inl ErrNotExist)) ''/''
       = Inl (CannotStat (Join [''/'', ''/snap'']) ErrPermission)"
proof -
  have d: "IsDir (ModeDir OR 0x1ED)" "(ModeDir OR 0x1ED) AND ModeSymlink = 0"
    by (simp_all add: IsDir_def ModeDir_def ModeSymlink_def)
  have l: "(ModeSymlink OR 0x1FF) AND ModeSymlink \<noteq> 0"
    by (simp add: ModeSymlink_def)
  have j: "Join [''/x'', ''/var/lib/snapd/snap''] = ''/x/var/lib/snapd/snap''"
          "Join [''/'', ''/var/lib/snapd/snap''] = ''/var/lib/snapd/snap''"
    by code_simp+
  show ?thesis
    using d l
      snapMountDirProbe_outcomes [of "example_env no_files (Inr (ModeDir OR 0x1ED)) (Inl ErrNotExist)" "''/''"]
      snapMountDirProbe_outcomes [of "example_env no_files (Inl ErrNotExist) (Inl ErrNotExist)" "''/''"]
      snapMountDirProbe_outcomes [of "example_env no_files (Inr (ModeSymlink OR 0x1FF)) (Inr ''/var/lib/snapd/snap'')" "''/''"]
      snapMountDirProbe_outcomes [of "example_env no_files (Inr (ModeSymlink OR 0x1FF)) (Inr ''var/lib/snapd/snap'')" "''/x''"]
      snapMountDirProbe_outcomes [of "example_env no_files (Inr (ModeSymlink OR 0x1FF)) (Inr ''/x/var/lib/snapd/snap'')" "''/x''"]
      snapMountDirProbe_outcomes [of "example_env no_files (Inr (ModeSymlink OR 0x1FF)) (Inr ''/elsewhere'')" "''/''"]
      snapMountDirProbe_outcomes [of "example_env no_files (Inl ErrPermission) (Inl ErrNotExist)" "''/''"]
    by (simp add: example_env_def j)
qed

section \<open>Stripping the root\<close>

text \<open>
  Claim C2. \<^verbatim>\<open>StripRootDir(p)\<close> panics, and returns no value, whenever \<open>p\<close> is not
  absolute or is not a path under the current root. The code tests the second condition
  with \<^verbatim>\<open>strings.HasPrefix(dir, GlobalRootDir)\<close>, a comparison of bytes: under the root
  \<^verbatim>\<open>/foo\<close> the path \<^verbatim>\<open>/foobar\<close>, which is not under \<^verbatim>\<open>/foo\<close>, passes both tests
  and \<^verbatim>\<open>StripRootDir\<close> returns \<^verbatim>\<open>/../foobar\<close>.
\<close>

theorem StripRootDir_sibling_of_root:
  "IsAbs ''/foobar'' \<and> HasPrefix ''/foobar'' ''/foo''
   \<and> Rel ''/foo'' ''/foobar'' = Inr ''../foobar''
   \<and> StripRootDir (initial_vars\<lparr>GlobalRootDir := ''/foo''\<rparr>) ''/foobar'' = Inr ''/../foobar''"
  by code_simp

text \<open>
  Claim C6, as stated: for every root \<open>r\<close> and every non-empty relative path \<open>p'\<close> such
  that \<^verbatim>\<open>join(r, p')\<close> is a cleaned absolute path under \<open>r\<close>,
  \<^verbatim>\<open>StripRootDir(join(r, p'))\<close> is \<^verbatim>\<open>/\<close> followed by \<open>p'\<close>. It fails for a \<open>p'\<close> that
  is not itself cleaned: \<^verbatim>\<open>join\<close> cleans, so under the root \<^verbatim>\<open>/x\<close> the relative path
  \<^verbatim>\<open>a/\<close> comes back as \<^verbatim>\<open>/a\<close>.
\<close>

theorem StripRootDir_roundtrip_counterexample:
  "''a/'' \<noteq> [] \<and> \<not> IsAbs ''a/''
   \<and> IsAbs (Join [''/x'', ''a/''])
   \<and> Clean (Join [''/x'', ''a/'']) = Join [''/x'', ''a/'']
   \<and> HasPrefix (Join [''/x'', ''a/'']) ''/x''
   \<and> StripRootDir (initial_vars\<lparr>GlobalRootDir := ''/x''\<rparr>) (Join [''/x'', ''a/'']) = Inr ''/a''
   \<and> StripRootDir (initial_vars\<lparr>GlobalRootDir := ''/x''\<rparr>) (Join [''/x'', ''a/''])
       \<noteq> Inr (''/'' @ ''a/'')"
  by code_simp

text \<open>
  A cleaned relative path that climbs with \<^verbatim>\<open>..\<close> does not come back either.
\<close>

lemma StripRootDir_dotdot_example:
  "Clean ''../x/a'' = ''../x/a''
   \<and> StripRootDir (initial_vars\<lparr>GlobalRootDir := ''/x''\<rparr>) (Join [''/x'', ''../x/a'']) = Inr ''/a''"
  by code_simp

text \<open>
  Claim C6, amended: for every root \<open>r\<close> and every relative path \<open>p'\<close> that is itself
  cleaned and has no \<^verbatim>\<open>..\<close> element, such that \<^verbatim>\<open>join(r, p')\<close> is absolute and begins
  with the string \<open>r\<close>, \<^verbatim>\<open>StripRootDir(join(r, p'))\<close> returns exactly \<^verbatim>\<open>/\<close> followed by
  \<open>p'\<close>.
\<close>

theorem StripRootDir_roundtrip:
  assumes root: "GlobalRootDir s = r"
    and rel: "\<not> IsAbs p"
    and clean: "Clean p = p"
    and nodd: "''..'' \<notin> set (Split p CHR ''/'')"
    and abs: "IsAbs (Join [r, p])"
    and pre: "HasPrefix (Join [r, p]) r"
  shows "StripRootDir s (Join [r, p]) = Inr (''/'' @ p)"
proof -
  let ?N = "filter (\<lambda>e. e \<noteq> [] \<and> e \<noteq> ''.'') (Split p CHR ''/'')"
  let ?R = "fold (clean_elem True) (Split r CHR ''/'') []"
  have pne: "p \<noteq> []" using clean Clean_nonempty [of p] by auto
  have prel: "hd p \<noteq> CHR ''/''" using rel pne by (simp add: IsAbs_iff)
  have rne: "r \<noteq> []"
  proof
    assume "r = []"
    then have "Join [r, p] = p" using pne clean by (simp add: Join_Cons_empty Join_Cons_nonempty)
    with abs rel show False by simp
  qed
  have J: "Join [r, p] = Clean (r @ ''/'' @ p)"
    using rne by (simp add: Join_Cons_nonempty)
  have rabs: "hd r = CHR ''/''"
    using abs Clean_hd [of "r @ ''/'' @ p"] rne by (simp add: J IsAbs_iff)
  have vR: "valid_out True ?R" by (simp add: valid_out_Split)
  have cr: "Clean r = render True ?R"
    using rne rabs by (simp add: Clean_render)
  have "Clean (r @ ''/'' @ p)
        = render True (fold (clean_elem True) (Split (r @ ''/'' @ p) CHR ''/'') [])"
    using rne rabs by (simp add: Clean_render)
  also have "Split (r @ ''/'' @ p) CHR ''/'' = Split r CHR ''/'' @ Split p CHR ''/''"
    using Split_append_sep [of r "CHR ''/''" p] by simp
  finally have Jr: "Join [r, p] = render True (rev ?N @ ?R)"
    using nodd by (simp add: J fold_clean_elem_no_dotdot)
  have cp: "p = render False (rev ?N)"
    using clean pne prel nodd Clean_render [of p] by (simp add: fold_clean_elem_no_dotdot)
  have Ncs: "\<forall>e\<in>set ?N. CHR ''/'' \<notin> set e"
    by (auto dest: Split_no_sep)
  have "valid_out True (fold (clean_elem True) (Split p CHR ''/'') ?R)"
    using vR by (rule valid_out_Split)
  then have vN: "valid_out True (rev ?N @ ?R)"
    by (simp add: fold_clean_elem_no_dotdot [OF nodd])
  have cj: "Clean (Join [r, p]) = Join [r, p]"
    by (simp add: J Clean_idem)
  have strip: "StripRootDir s (Join [r, p])
        = (case Rel r (Join [r, p]) of Inl err \<Rightarrow> Inl (RelFailed err) | Inr result \<Rightarrow> Inr (''/'' @ result))"
    using abs pre root by (simp add: StripRootDir_def)
  show ?thesis
  proof (cases "?N = []")
    case True
    then have pd: "p = ''.''" using cp by (simp add: render_def)
    have "Join [r, p] = Clean r" using True Jr cr by simp
    then have "Rel r (Join [r, p]) = Inr ''.''"
      by (simp add: Rel_def Let_def Clean_idem)
    then have "StripRootDir s (Join [r, p]) = Inr ''/.''"
      by (simp add: strip)
    then show ?thesis using pd by simp
  next
    case False
    then have p: "p = strings_Join ?N ''/''" using cp by (simp add: render_def)
    have ne: "Clean (Join [r, p]) \<noteq> Clean r"
    proof
      assume "Clean (Join [r, p]) = Clean r"
      then have "render True (rev ?N @ ?R) = render True ?R"
        using cj Jr cr by simp
      from render_inject [OF vN vR this] False show False by simp
    qed
    have walk: "rel_walk (Clean r) (Clean (Join [r, p])) = ([], strings_Join ?N ''/'', [])"
      using rel_walk_render [OF vR False] by (simp add: cj cr Jr [symmetric])
    have "Rel r (Join [r, p]) = Inr (strings_Join ?N ''/'')"
    proof (rule Rel_walked)
      show "Clean r \<noteq> []" by simp
      show "hd (Clean r) = CHR ''/''" using Clean_hd [OF rne] rabs by simp
      show "hd (Clean (Join [r, p])) = CHR ''/''" using abs by (simp add: cj IsAbs_iff)
      show "Clean (Join [r, p]) \<noteq> Clean r" by (rule ne)
      show "rel_walk (Clean r) (Clean (Join [r, p])) = ([], strings_Join ?N ''/'', [])" by (rule walk)
    qed
    then show ?thesis using p by (simp add: strip)
  qed
qed

theorem StripRootDir_roundtrip_witness:
  "\<not> IsAbs ''a/b'' \<and> Clean ''a/b'' = ''a/b'' \<and> ''..'' \<notin> set (Split ''a/b'' CHR ''/'')
   \<and> IsAbs (Join [''/x'', ''a/b'']) \<and> HasPrefix (Join [''/x'', ''a/b'']) ''/x''
   \<and> StripRootDir (initial_vars\<lparr>GlobalRootDir := ''/x''\<rparr>) (Join [''/x'', ''a/b'']) = Inr ''/a/b''"
proof -
  have h1: "\<not> IsAbs ''a/b''" by code_simp
  have h2: "Clean ''a/b'' = ''a/b''" by code_simp
  have h3: "''..'' \<notin> set (Split ''a/b'' CHR ''/'')" by code_simp
  have h4: "IsAbs (Join [''/x'', ''a/b''])" by code_simp
  have h5: "HasPrefix (Join [''/x'', ''a/b'']) ''/x''" by code_simp
  have h0: "GlobalRootDir (initial_vars\<lparr>GlobalRootDir := ''/x''\<rparr>) = ''/x''" by simp
  show ?thesis
    using h1 h2 h3 h4 h5 StripRootDir_roundtrip [OF h0 h1 h2 h3 h4 h5] by simp
qed

section \<open>Changing the root\<close>

text \<open>
  Each conditional assignment of \<open>SetRootDir\<close> is one update of the record, with the
  condition in the value assigned.
\<close>

lemma merge_mount:
  "(if c then s\<lparr>SnapMountDir := a\<rparr>
    else (case p of Inr dir \<Rightarrow> s\<lparr>SnapMountDir := dir, snapMountDirDetectionError := None\<rparr>
          | Inl err \<Rightarrow> s\<lparr>SnapMountDir := ph, snapMountDirDetectionError := Some (CannotResolve err)\<rparr>))
   = s\<lparr>SnapMountDir := (if c then a else case p of Inr dir \<Rightarrow> dir | Inl err \<Rightarrow> ph),
        snapMountDirDetectionError := (if c then snapMountDirDetectionError s
           else case p of Inr dir \<Rightarrow> None | Inl err \<Rightarrow> Some (CannotResolve err))\<rparr>"
  by (simp split: sum.splits)

lemma merge_libexec:
  "(case st of
      Inl err \<Rightarrow> if err = ErrNotExist then
                  (case st2 of Inr fi \<Rightarrow> s\<lparr>DistroLibExecDir := a\<rparr> | Inl err \<Rightarrow> s)
                else s
    | Inr fi \<Rightarrow> s)
   = s\<lparr>DistroLibExecDir :=
        (case st of
           Inl err \<Rightarrow> if err = ErrNotExist then (case st2 of Inr fi \<Rightarrow> a | Inl err \<Rightarrow> DistroLibExecDir s)
                     else DistroLibExecDir s
         | Inr fi \<Rightarrow> DistroLibExecDir s)\<rparr>"
  by (simp split: sum.splits)

lemma merge_font:
  "(if c then s\<lparr>SystemFontconfigCacheDirs := v\<rparr> else s)
   = s\<lparr>SystemFontconfigCacheDirs := (if c then v else SystemFontconfigCacheDirs s)\<rparr>"
  by simp

lemma merge_writable:
  "(if c then s\<lparr>WritableMountPath := a\<rparr> else s\<lparr>WritableMountPath := b\<rparr>)
   = s\<lparr>WritableMountPath := (if c then a else b)\<rparr>"
  by simp

lemmas SetRootDir_unfold =
  SetRootDir_def Let_def merge_mount merge_libexec merge_font merge_writable SetSnapHomeDirs_home

lemma SetRootDir_GlobalRootDir: "GlobalRootDir (vars (SetRootDir env r w)) = (if r = [] then ''/'' else r)"
  by (simp add: SetRootDir_unfold cong del: if_weak_cong sum.case_cong_weak)

lemma SetRootDir_SnapMountDir: "SnapMountDir (vars (SetRootDir env r w)) =
   (if fst (isInsideBaseSnap env) then Join [if r = [] then ''/'' else r, DefaultSnapMountDir]
    else case snapMountDirProbe env (if r = [] then ''/'' else r) of
           Inr dir \<Rightarrow> dir | Inl err \<Rightarrow> snapMountDirUnresolvedPlaceholder)"
  by (simp add: SetRootDir_unfold cong del: if_weak_cong sum.case_cong_weak)

lemma SetRootDir_SnapBinariesDir: "SnapBinariesDir (vars (SetRootDir env r w)) =
   Join [SnapMountDir (vars (SetRootDir env r w)), ''bin'']"
  by (simp add: SetRootDir_unfold cong del: if_weak_cong sum.case_cong_weak)

lemma SetRootDir_detection_error: "snapMountDirDetectionError (vars (SetRootDir env r w)) =
   (if fst (isInsideBaseSnap env) then snapMountDirDetectionError (vars w)
    else case snapMountDirProbe env (if r = [] then ''/'' else r) of
           Inr dir \<Rightarrow> None | Inl err \<Rightarrow> Some (CannotResolve err))"
  by (simp add: SetRootDir_unfold cong del: if_weak_cong sum.case_cong_weak)

lemma SetRootDir_DistroLibExecDir: "DistroLibExecDir (vars (SetRootDir env r w)) =
   (case Stat env (Join [if r = [] then ''/'' else r, DefaultDistroLibexecDir]) of
      Inl err \<Rightarrow> if err = ErrNotExist then
         (case Stat env (Join [if r = [] then ''/'' else r, AltDistroLibexecDir]) of
            Inr fi \<Rightarrow> Join [if r = [] then ''/'' else r, AltDistroLibexecDir]
          | Inl err \<Rightarrow> Join [if r = [] then ''/'' else r, DefaultDistroLibexecDir])
         else Join [if r = [] then ''/'' else r, DefaultDistroLibexecDir]
    | Inr fi \<Rightarrow> Join [if r = [] then ''/'' else r, DefaultDistroLibexecDir])"
  by (simp add: SetRootDir_unfold cong del: if_weak_cong sum.case_cong_weak)

end
